theory Spec2Isabelle
  imports Complex_Main "HOL-Library.Signed_Division"
begin

section \<open>Vectors\<close>

text \<open>
  The controller computes with Eigen vectors of \<open>double\<close>. A \<open>double\<close> is modelled as a
  \<^typ>\<open>real\<close>: the theorems below are about the arithmetic the source writes down, not
  about rounding. \<open>Vector3d\<close> and \<open>Vector2d\<close> are datatypes with the three (two)
  components; \<open>v[0]\<close>, \<open>v[1]\<close>, \<open>v[2]\<close> of the source are \<open>vx\<close>, \<open>vy\<close>, \<open>vz\<close>.
\<close>

datatype Vector3d = Vector3d (vx: real) (vy: real) (vz: real)

datatype Vector2d = Vector2d (ux: real) (uy: real)

instantiation Vector3d :: "{plus, minus, zero}"
begin

definition plus_Vector3d :: "Vector3d \<Rightarrow> Vector3d \<Rightarrow> Vector3d" where
  "plus_Vector3d a b = Vector3d (vx a + vx b) (vy a + vy b) (vz a + vz b)"

definition minus_Vector3d :: "Vector3d \<Rightarrow> Vector3d \<Rightarrow> Vector3d" where
  "minus_Vector3d a b = Vector3d (vx a - vx b) (vy a - vy b) (vz a - vz b)"

definition zero_Vector3d :: Vector3d where
  "zero_Vector3d = Vector3d 0 0 0"

instance ..

end

instantiation Vector2d :: "{plus, minus, zero}"
begin

definition plus_Vector2d :: "Vector2d \<Rightarrow> Vector2d \<Rightarrow> Vector2d" where
  "plus_Vector2d a b = Vector2d (ux a + ux b) (uy a + uy b)"

definition minus_Vector2d :: "Vector2d \<Rightarrow> Vector2d \<Rightarrow> Vector2d" where
  "minus_Vector2d a b = Vector2d (ux a - ux b) (uy a - uy b)"

definition zero_Vector2d :: Vector2d where
  "zero_Vector2d = Vector2d 0 0"

instance ..

end

text \<open>Scalar multiple \<open>k*v\<close>, quotient \<open>v/k\<close> and Euclidean norm \<open>v.norm()\<close>.\<close>

definition scale3 :: "real \<Rightarrow> Vector3d \<Rightarrow> Vector3d" where
  "scale3 k v = Vector3d (k * vx v) (k * vy v) (k * vz v)"

definition div3 :: "Vector3d \<Rightarrow> real \<Rightarrow> Vector3d" where
  "div3 v k = Vector3d (vx v / k) (vy v / k) (vz v / k)"

definition scale2 :: "real \<Rightarrow> Vector2d \<Rightarrow> Vector2d" where
  "scale2 k v = Vector2d (k * ux v) (k * uy v)"

definition div2 :: "Vector2d \<Rightarrow> real \<Rightarrow> Vector2d" where
  "div2 v k = Vector2d (ux v / k) (uy v / k)"

definition norm2 :: "Vector2d \<Rightarrow> real" where
  "norm2 v = sqrt ((ux v)\<^sup>2 + (uy v)\<^sup>2)"

text \<open>The assignment \<open>v[2] = z\<close> to the vertical component of a vector.\<close>

definition set_z :: "Vector3d \<Rightarrow> real \<Rightarrow> Vector3d" where
  "set_z v z = Vector3d (vx v) (vy v) z"

text \<open>The horizontal part of a vector, the components the source calls the horizontal plane.\<close>

definition horizontal :: "Vector3d \<Rightarrow> Vector2d" where
  "horizontal v = Vector2d (vx v) (vy v)"

section \<open>Walk controller: data\<close>

datatype WalkState = STARTING | MOVING | STOPPING | STOPPED

datatype StepState = SWING | STANCE | FORCE_STANCE | FORCE_STOP

datatype LegState = WALKING | MANUAL | WALKING_TO_MANUAL | MANUAL_TO_WALKING

text \<open>
  \<open>WalkController::LegStepper\<close>. The three arrays of five control nodes are functions from
  the index; the source only ever uses the constant indices 0 to 4. The back pointer
  \<open>walker\<close> is not a field: the functions below take the walk controller as an argument.
  The source is the older walk controller, whose names the newer headers and the
  specification changed: \<open>state\<close> is the step state, \<open>inCorrectPhase\<close> is
  \<open>at_correct_phase\<close>, \<open>swing1ControlNodes\<close> is \<open>swing_1_nodes\<close>, and so on.
\<close>

record LegStepper =
  phase :: int
  phaseOffset :: int
  state :: StepState
  inCorrectPhase :: bool
  completedFirstStep :: bool
  strideVector :: Vector2d
  defaultTipPosition :: Vector3d
  currentTipPosition :: Vector3d
  tipVelocity :: Vector3d
  swingOriginTipPosition :: Vector3d
  stanceOriginTipPosition :: Vector3d
  swing1ControlNodes :: "nat \<Rightarrow> Vector3d"
  swing2ControlNodes :: "nat \<Rightarrow> Vector3d"
  stanceControlNodes :: "nat \<Rightarrow> Vector3d"
  swingDeltaT :: real
  stanceDeltaT :: real

text \<open>
  The scalars of the walk controller that a leg stepper reads through \<open>walker\<close>. The
  walk controller itself extends this record below.
\<close>

record Walker =
  stepClearance :: real
  stepDepth :: real
  maximumBodyHeight :: real
  timeDelta :: real
  stepFrequency :: real
  phaseLength :: int
  stanceEnd :: int
  swingStart :: int
  swingEnd :: int
  stanceStart :: int

section \<open>Step cycle: control nodes\<close>

text \<open>
  \<open>LegStepper::generateStanceControlNodes\<close>. The horizontal assignments write whole vectors;
  the vertical ones then overwrite the third component, in the order of the source.
\<close>

definition generateStanceControlNodes :: "'a Walker_scheme \<Rightarrow> Vector3d \<Rightarrow> LegStepper \<Rightarrow> LegStepper" where
  "generateStanceControlNodes w strideVec ls =
    (let stanceDepth = stepDepth w * maximumBodyHeight w;
         n = stanceControlNodes ls;
         n = n(0 := stanceOriginTipPosition ls);
         n = n(4 := stanceOriginTipPosition ls - strideVec);
         n = n(1 := n 4 + scale3 0.75 (n 0 - n 4));
         n = n(2 := n 4 + scale3 0.5 (n 0 - n 4));
         n = n(3 := n 4 + scale3 0.25 (n 0 - n 4));
         n = n(0 := set_z (n 0) (vz (stanceOriginTipPosition ls)));
         n = n(4 := set_z (n 4) (vz (defaultTipPosition ls)));
         n = n(2 := set_z (n 2) (vz (n 0) - stanceDepth));
         n = n(1 := set_z (n 1) ((vz (n 0) + vz (n 2)) / 2.0));
         n = n(3 := set_z (n 3) ((vz (n 4) + vz (n 2)) / 2.0))
     in ls\<lparr>stanceControlNodes := n\<rparr>)"


text \<open>
  \<open>LegStepper::generateSwingControlNodes\<close>. The stride vector argument is not read by the
  source function.
\<close>

definition generateSwingControlNodes :: "'a Walker_scheme \<Rightarrow> Vector3d \<Rightarrow> LegStepper \<Rightarrow> LegStepper" where
  "generateSwingControlNodes w strideVec ls =
    (let swingHeight = stepClearance w * maximumBodyHeight w;
         bezierScaler = stanceDeltaT ls / swingDeltaT ls;
         st = stanceControlNodes ls;
         a = swing1ControlNodes ls;
         b = swing2ControlNodes ls;
         a = a(0 := swingOriginTipPosition ls);
         a = a(1 := a 0 + scale3 bezierScaler (st 4 - st 3));
         a = a(2 := a 1 + (a 1 - a 0));
         a = a(4 := defaultTipPosition ls);
         a = a(3 := div3 (a 2 + a 4) 2.0);
         b = b(0 := a 4);
         b = b(1 := b 0 + (b 0 - a 3));
         b = b(3 := st 0 + scale3 bezierScaler (st 0 - st 1));
         b = b(2 := b 3 + b 3 - st 0);
         b = b(4 := st 0);
         a = a(0 := set_z (a 0) (vz (swingOriginTipPosition ls)));
         a = a(1 := set_z (a 1) (vz (a 0) + bezierScaler * (vz (st 4) - vz (st 3))));
         a = a(4 := set_z (a 4) (vz (a 0) + swingHeight));
         a = a(2 := set_z (a 2) (vz (a 0) + 2.0 * bezierScaler * (vz (st 4) - vz (st 3))));
         a = a(3 := set_z (a 3) (vz (a 4)));
         b = b(0 := set_z (b 0) (vz (a 4)));
         b = b(1 := set_z (b 1) (vz (b 0)));
         b = b(2 := set_z (b 2) (vz (st 0) + 2.0 * bezierScaler * (vz (st 0) - vz (st 1))));
         b = b(3 := set_z (b 3) (vz (st 0) + bezierScaler * (vz (st 0) - vz (st 1))));
         b = b(4 := set_z (b 4) (vz (st 0)))
     in ls\<lparr>swing1ControlNodes := a, swing2ControlNodes := b\<rparr>)"

section \<open>Step cycle: tip trajectory\<close>

text \<open>
  A \<open>double\<close> converted to \<open>int\<close> is truncated toward zero; \<open>int / int\<close> and
  \<open>int % int\<close> of the source are \<open>sdiv\<close> and \<open>smod\<close>. An \<open>int\<close> is modelled as
  an unbounded \<^typ>\<open>int\<close>: phases and counters stay far from the 32-bit limits.
\<close>

definition toInt :: "real \<Rightarrow> int" where
  "toInt x = (if 0 \<le> x then \<lfloor>x\<rfloor> else \<lceil>x\<rceil>)"

text \<open>
  Modelled from the spec: \<open>roundToInt\<close>, \<open>mod\<close> and \<open>quarticBezierDot\<close> are helpers of a
  header that is not among the sources. The specification calls them rounding to the
  nearest integer, the phase modulo the phase length, and the derivative of a degree-4
  Bezier curve at the parameter \<open>t\<close>.
\<close>

definition roundToInt :: "real \<Rightarrow> int" where
  "roundToInt x = round x"

definition modulo :: "int \<Rightarrow> int \<Rightarrow> int" where
  "modulo a b = a mod b"

definition quarticBezierDot :: "(nat \<Rightarrow> Vector3d) \<Rightarrow> real \<Rightarrow> Vector3d" where
  "quarticBezierDot points t =
    (let s = 1.0 - t
     in scale3 (4.0 * s * s * s) (points 1 - points 0)
        + scale3 (12.0 * s * s * t) (points 2 - points 1)
        + scale3 (12.0 * s * t * t) (points 3 - points 2)
        + scale3 (4.0 * t * t * t) (points 4 - points 3))"

text \<open>\<open>LegStepper::calculateDeltaT\<close>.\<close>

definition calculateDeltaT :: "'a Walker_scheme \<Rightarrow> StepState \<Rightarrow> int \<Rightarrow> real" where
  "calculateDeltaT w st len =
    (let numIterations = toInt (real_of_int (roundToInt
           ((real_of_int len / real_of_int (phaseLength w)) / (stepFrequency w * timeDelta w) / 2.0)) * 2.0)
     in if st = SWING then 2.0 / real_of_int numIterations else 1.0 / real_of_int numIterations)"

text \<open>
  \<open>LegStepper::updatePosition\<close>. The debug output, and the values \<open>t1\<close>, \<open>t2\<close> and \<open>t\<close>
  clamped only for it, are left out. A leg in \<open>FORCE_STANCE\<close> or \<open>FORCE_STOP\<close> is not moved.
\<close>

definition updatePosition_swing :: "'a Walker_scheme \<Rightarrow> LegStepper \<Rightarrow> LegStepper" where
  "updatePosition_swing w ls0 =
    (let iteration = phase ls0 - swingStart w + 1;
         swingLength = real_of_int (swingEnd w - swingStart w);
         ls = ls0\<lparr>swingDeltaT := calculateDeltaT w (state ls0) (toInt swingLength)\<rparr>;
         numIterations = toInt (2.0 / swingDeltaT ls);
         ls = (if iteration = 1 then ls\<lparr>swingOriginTipPosition := currentTipPosition ls\<rparr> else ls);
         strideVec = Vector3d (ux (strideVector ls)) (uy (strideVector ls)) 0.0;
         (ls, deltaPos) =
           (if iteration \<le> numIterations sdiv 2 then
              (let ls = generateSwingControlNodes w strideVec ls;
                   t1 = real_of_int iteration * swingDeltaT ls
               in (ls, scale3 (swingDeltaT ls) (quarticBezierDot (swing1ControlNodes ls) t1)))
            else
              (let stanceStart' = swingEnd w;
                   stanceEnd' = swingStart w;
                   stanceLength = modulo (stanceEnd' - stanceStart') (phaseLength w);
                   ls = ls\<lparr>stanceDeltaT := calculateDeltaT w STANCE stanceLength\<rparr>;
                   ls = ls\<lparr>stanceOriginTipPosition := defaultTipPosition ls + scale3 0.5 strideVec\<rparr>;
                   ls = generateStanceControlNodes w strideVec ls;
                   ls = generateSwingControlNodes w strideVec ls;
                   t2 = real_of_int (iteration - numIterations sdiv 2) * swingDeltaT ls
               in (ls, scale3 (swingDeltaT ls) (quarticBezierDot (swing2ControlNodes ls) t2))))
     in ls\<lparr>currentTipPosition := currentTipPosition ls + deltaPos,
            tipVelocity := div3 deltaPos (timeDelta w)\<rparr>)"

definition updatePosition_stance :: "'a Walker_scheme \<Rightarrow> LegStepper \<Rightarrow> LegStepper" where
  "updatePosition_stance w ls0 =
    (let stanceStart' = (if completedFirstStep ls0 then swingEnd w else phaseOffset ls0);
         stanceEnd' = swingStart w;
         stanceLength = modulo (stanceEnd' - stanceStart') (phaseLength w);
         ls = ls0\<lparr>stanceDeltaT := calculateDeltaT w STANCE stanceLength\<rparr>;
         iteration = modulo (phase ls + (phaseLength w - stanceStart')) (phaseLength w) + 1;
         ls = (if iteration = 1 then ls\<lparr>stanceOriginTipPosition := currentTipPosition ls\<rparr> else ls);
         strideVec = Vector3d (ux (strideVector ls)) (uy (strideVector ls)) 0.0;
         strideVec = scale3 (real_of_int stanceLength
                       / real_of_int (modulo (swingStart w - swingEnd w) (phaseLength w))) strideVec;
         ls = generateStanceControlNodes w strideVec ls;
         t = real_of_int iteration * stanceDeltaT ls;
         deltaPos = scale3 (stanceDeltaT ls) (quarticBezierDot (stanceControlNodes ls) t)
     in ls\<lparr>currentTipPosition := currentTipPosition ls + deltaPos,
            tipVelocity := div3 deltaPos (timeDelta w)\<rparr>)"

definition updatePosition :: "'a Walker_scheme \<Rightarrow> LegStepper \<Rightarrow> LegStepper" where
  "updatePosition w ls =
    (if state ls = SWING then updatePosition_swing w ls
     else if state ls = STANCE then updatePosition_stance w ls
     else ls)"

section \<open>Walk controller: the walk cycle\<close>

record Parameters =
  maxCurvatureSpeed :: real
  maxAcceleration :: real

text \<open>
  A leg of the robot model, with the fields the walk cycle reads; \<open>legState\<close> is the
  field \<open>state\<close> of the source's \<open>Leg\<close>.
\<close>

record Leg =
  localTipPosition :: Vector3d
  stanceTipPosition :: Vector3d
  legState :: LegState

datatype Quat = Quat (qw: real) (qx: real) (qy: real) (qz: real)

text \<open>The class \<open>Pose\<close>: a translation and a rotation.\<close>

record Pose =
  position :: Vector3d
  rotation :: Quat

text \<open>
  \<open>WalkController\<close>. \<open>walkState\<close> is its field \<open>state\<close>; \<open>legs\<close> stands for
  \<open>model->legs\<close>. The arrays \<open>[3][2]\<close> of leg steppers and legs are functions of the two
  indices, and every loop of the source runs over \<open>legIndices\<close>, the six pairs in the
  order of the nested \<open>for\<close> loops.
\<close>

record WalkController = Walker +
  walkState :: WalkState
  legsInCorrectPhase :: int
  legsCompletedFirstStep :: int
  minFootprintRadius :: real
  stanceRadius :: real
  angularVelocity :: real
  localCentreVelocity :: Vector2d
  params :: Parameters
  legSteppers :: "nat \<Rightarrow> nat \<Rightarrow> LegStepper"
  legs :: "nat \<Rightarrow> nat \<Rightarrow> Leg"
  pose :: Pose

text \<open>
  The collaborators outside the sources: the inverse kinematics of a leg, the joint limit
  clamp of the model, and the quaternion operations used for the visualised body pose.
  They are parameters of the model.
\<close>

record Collaborators =
  applyLocalIK :: "Vector3d \<Rightarrow> Leg \<Rightarrow> Leg"
  clampToLimits :: "(nat \<Rightarrow> nat \<Rightarrow> Leg) \<Rightarrow> (nat \<Rightarrow> nat \<Rightarrow> Leg)"
  rotateVector :: "Quat \<Rightarrow> Vector3d \<Rightarrow> Vector3d"
  quatOfRotationVector :: "Vector3d \<Rightarrow> Quat"
  quatTimes :: "Quat \<Rightarrow> Quat \<Rightarrow> Quat"

text \<open>
  A failed \<open>ASSERT\<close> and an integer remainder by zero end the program; they are the
  errors of the model.
\<close>

datatype error = AssertionFailed | DivisionByZero

definition remainder :: "int \<Rightarrow> int \<Rightarrow> error + int" where
  "remainder a b = (if b = 0 then Inl DivisionByZero else Inr (a smod b))"

text \<open>
  Modelled from the spec: the macro \<open>NUM_LEGS\<close> is defined in a header that is not among
  the sources; the specification's leg count is 6, the size of the \<open>[3][2]\<close> arrays.
\<close>

definition NUM_LEGS :: int where
  "NUM_LEGS = 6"

definition legIndices :: "(nat \<times> nat) list" where
  "legIndices = [(0, 0), (0, 1), (1, 0), (1, 1), (2, 0), (2, 1)]"

definition setLegStepper :: "nat \<Rightarrow> nat \<Rightarrow> LegStepper \<Rightarrow> WalkController \<Rightarrow> WalkController" where
  "setLegStepper l s ls w = w\<lparr>legSteppers := (legSteppers w)(l := (legSteppers w l)(s := ls))\<rparr>"

definition setLeg :: "nat \<Rightarrow> nat \<Rightarrow> Leg \<Rightarrow> WalkController \<Rightarrow> WalkController" where
  "setLeg l s leg w = w\<lparr>legs := (legs w)(l := (legs w l)(s := leg))\<rparr>"

text \<open>A loop over the legs whose body can fail stops at the first failure.\<close>

fun forEachLeg :: "(nat \<times> nat \<Rightarrow> 'a \<Rightarrow> error + 'a) \<Rightarrow> (nat \<times> nat) list \<Rightarrow> 'a \<Rightarrow> error + 'a" where
  "forEachLeg body [] a = Inr a"
| "forEachLeg body (i # rest) a =
    (case body i a of Inl e \<Rightarrow> Inl e | Inr a' \<Rightarrow> forEachLeg body rest a')"

subsection \<open>Body velocities (the first part of \<open>updateWalk\<close>)\<close>

definition sqr :: "real \<Rightarrow> real" where
  "sqr x = x * x"

definition onGroundRatio :: "WalkController \<Rightarrow> real" where
  "onGroundRatio w =
    real_of_int (phaseLength w - (swingEnd w - swingStart w)) / real_of_int (phaseLength w)"

definition localVelocity :: "WalkController \<Rightarrow> Vector2d \<Rightarrow> Vector2d" where
  "localVelocity w localNormalisedVelocity =
    (if walkState w \<noteq> STOPPING
     then div2 (scale2 (stepFrequency w) (scale2 (minFootprintRadius w)
            (scale2 2.0 localNormalisedVelocity))) (onGroundRatio w)
     else Vector2d 0.0 0.0)"

definition normalSpeed :: "WalkController \<Rightarrow> Vector2d \<Rightarrow> real" where
  "normalSpeed w localNormalisedVelocity = norm2 (localVelocity w localNormalisedVelocity)"

definition updateAngularVelocity :: "real \<Rightarrow> real \<Rightarrow> WalkController \<Rightarrow> WalkController" where
  "updateAngularVelocity newCurvature speed w =
    (let newAngularVelocity = newCurvature * speed / stanceRadius w;
         dif = newAngularVelocity - angularVelocity w
     in if \<bar>dif\<bar> > 0.0
        then w\<lparr>angularVelocity := angularVelocity w
               + dif * min 1.0 (maxCurvatureSpeed (params w) * timeDelta w / \<bar>dif\<bar>)\<rparr>
        else w)"

definition deriveMaxAcceleration :: "WalkController \<Rightarrow> WalkController" where
  "deriveMaxAcceleration w =
    (if maxAcceleration (params w) = - 1.0
     then w\<lparr>params := (params w)\<lparr>maxAcceleration :=
            2.0 * minFootprintRadius w
              / sqr ((real_of_int (phaseLength w) - real_of_int (swingEnd w - swingStart w) * 0.5)
                       * timeDelta w)\<rparr>\<rparr>
     else w)"

definition updateCentreVelocity :: "Vector2d \<Rightarrow> WalkController \<Rightarrow> WalkController" where
  "updateCentreVelocity centralAcceleration w =
    (if norm2 centralAcceleration > 0.0
     then w\<lparr>localCentreVelocity := localCentreVelocity w
            + scale2 (min 1.0 (maxAcceleration (params w) * timeDelta w / norm2 centralAcceleration))
                centralAcceleration\<rparr>
     else w)"

definition bodyVelocities :: "Vector2d \<Rightarrow> real \<Rightarrow> WalkController \<Rightarrow> error + WalkController" where
  "bodyVelocities localNormalisedVelocity newCurvature w0 =
    (let lv = localVelocity w0 localNormalisedVelocity;
         speed = norm2 lv
     in if \<not> speed < 1.01 then Inl AssertionFailed
        else
          (let w = updateAngularVelocity newCurvature speed w0;
               centralVelocity = scale2 (1 - \<bar>newCurvature\<bar>) lv;
               centralAcceleration = centralVelocity - localCentreVelocity w;
               w = deriveMaxAcceleration w
           in Inr (updateCentreVelocity centralAcceleration w)))"

subsection \<open>State transitions of the walk cycle\<close>

definition startPhases :: "WalkController \<Rightarrow> WalkController" where
  "startPhases w =
    fold (\<lambda>(l, s) w. setLegStepper l s
            ((legSteppers w l s)\<lparr>phase := phaseOffset (legSteppers w l s) - 1\<rparr>) w)
      legIndices w"

definition walkStateTransition :: "real \<Rightarrow> WalkController \<Rightarrow> WalkController" where
  "walkStateTransition speed w =
    (if walkState w = STOPPED \<and> speed \<noteq> 0 then
       startPhases (w\<lparr>walkState := STARTING\<rparr>)
     else if walkState w = STARTING \<and> legsInCorrectPhase w = NUM_LEGS
               \<and> legsCompletedFirstStep w = NUM_LEGS then
       w\<lparr>legsInCorrectPhase := 0, legsCompletedFirstStep := 0, walkState := MOVING\<rparr>
     else if walkState w = MOVING \<and> \<not> speed \<noteq> 0 then
       w\<lparr>walkState := STOPPING\<rparr>
     else if walkState w = STOPPING \<and> legsInCorrectPhase w = NUM_LEGS then
       w\<lparr>legsInCorrectPhase := 0, walkState := STOPPED\<rparr>
     else w)"

subsection \<open>The robot state machine: one leg\<close>

definition strideOf :: "real \<Rightarrow> WalkController \<Rightarrow> Leg \<Rightarrow> Vector2d" where
  "strideOf ratio w leg =
    div2 (scale2 ratio (localCentreVelocity w
            + scale2 (angularVelocity w)
                (Vector2d (vy (localTipPosition leg)) (- vx (localTipPosition leg)))))
      (stepFrequency w)"

definition startingLeg :: "LegStepper \<Rightarrow> WalkController \<Rightarrow> error + LegStepper \<times> WalkController" where
  "startingLeg ls0 w0 =
    (case remainder (phase ls0 + 1) (phaseLength w0) of
       Inl e \<Rightarrow> Inl e
     | Inr p \<Rightarrow>
        (let ls = ls0\<lparr>phase := p\<rparr>;
             (ls, w) =
               (if legsInCorrectPhase w0 = NUM_LEGS
                     \<and> phase ls = swingEnd w0 \<and> \<not> completedFirstStep ls
                then (ls\<lparr>completedFirstStep := True\<rparr>,
                      w0\<lparr>legsCompletedFirstStep := legsCompletedFirstStep w0 + 1\<rparr>)
                else (ls, w0))
         in Inr
           (if \<not> inCorrectPhase ls then
              (if phaseOffset ls > swingStart w \<and> phaseOffset ls < swingEnd w then
                 (if phase ls = swingEnd w
                  then (ls\<lparr>inCorrectPhase := True\<rparr>,
                        w\<lparr>legsInCorrectPhase := legsInCorrectPhase w + 1\<rparr>)
                  else (ls\<lparr>state := FORCE_STANCE\<rparr>, w))
               else (ls\<lparr>inCorrectPhase := True\<rparr>,
                     w\<lparr>legsInCorrectPhase := legsInCorrectPhase w + 1\<rparr>))
            else (ls, w))))"

definition stoppingLeg :: "nat \<Rightarrow> nat \<Rightarrow> LegStepper \<Rightarrow> WalkController \<Rightarrow> error + LegStepper \<times> WalkController" where
  "stoppingLeg l s ls0 w0 =
    (case (if \<not> inCorrectPhase ls0 then remainder (phase ls0 + 1) (phaseLength w0)
           else Inr (phase ls0)) of
       Inl e \<Rightarrow> Inl e
     | Inr p \<Rightarrow>
        (let ls = ls0\<lparr>phase := p\<rparr>;
             (ls, w) =
               (if \<not> inCorrectPhase ls0 \<and> l = 0 \<and> s = 0 \<and> state ls = FORCE_STOP \<and> phase ls = 0
                then (ls\<lparr>inCorrectPhase := True, state := STANCE\<rparr>,
                      w0\<lparr>legsInCorrectPhase := legsInCorrectPhase w0 + 1\<rparr>)
                else (ls, w0))
         in Inr
           (if norm2 (strideVector ls) = 0 \<and> phase ls = swingEnd w then
              (let ls = ls\<lparr>state := FORCE_STOP\<rparr>
               in if \<not> (l = 0 \<and> s = 0) \<and> \<not> inCorrectPhase ls
                  then (ls\<lparr>inCorrectPhase := True\<rparr>,
                        w\<lparr>legsInCorrectPhase := legsInCorrectPhase w + 1\<rparr>)
                  else (ls, w))
            else (ls, w))))"

definition robotStateMachineLeg :: "real \<Rightarrow> nat \<times> nat \<Rightarrow> WalkController \<Rightarrow> error + WalkController" where
  "robotStateMachineLeg ratio i w =
    (case i of (l, s) \<Rightarrow>
      (let ls = (legSteppers w l s)\<lparr>strideVector := strideOf ratio w (legs w l s)\<rparr>
       in if walkState w = STARTING then
            (case startingLeg ls w of
               Inl e \<Rightarrow> Inl e
             | Inr (ls', w') \<Rightarrow> Inr (setLegStepper l s ls' w'))
          else if walkState w = STOPPING then
            (case stoppingLeg l s ls w of
               Inl e \<Rightarrow> Inl e
             | Inr (ls', w') \<Rightarrow> Inr (setLegStepper l s ls' w'))
          else if walkState w = MOVING then
            (case remainder (phase ls + 1) (phaseLength w) of
               Inl e \<Rightarrow> Inl e
             | Inr p \<Rightarrow> Inr (setLegStepper l s (ls\<lparr>phase := p, inCorrectPhase := False\<rparr>) w))
          else if walkState w = STOPPED then
            Inr (setLegStepper l s
                   (ls\<lparr>inCorrectPhase := False, completedFirstStep := False,
                       phase := 0, state := STANCE\<rparr>) w)
          else Inr (setLegStepper l s ls w)))"

definition robotStateMachine :: "real \<Rightarrow> WalkController \<Rightarrow> error + WalkController" where
  "robotStateMachine ratio w = forEachLeg (robotStateMachineLeg ratio) legIndices w"

subsection \<open>The leg state machine: the step state of each leg\<close>

definition selectStepState :: "'a Walker_scheme \<Rightarrow> LegStepper \<Rightarrow> LegStepper" where
  "selectStepState w ls =
    (if state ls = FORCE_STANCE then ls\<lparr>state := STANCE\<rparr>
     else if state ls = FORCE_STOP then ls\<lparr>state := FORCE_STOP\<rparr>
     else if phase ls \<ge> swingStart w \<and> phase ls < swingEnd w then ls\<lparr>state := SWING\<rparr>
     else if phase ls < stanceEnd w \<or> phase ls \<ge> stanceStart w then ls\<lparr>state := STANCE\<rparr>
     else ls)"

definition legStateMachineLeg :: "nat \<times> nat \<Rightarrow> WalkController \<Rightarrow> WalkController" where
  "legStateMachineLeg i w =
    (case i of (l, s) \<Rightarrow> setLegStepper l s (selectStepState w (legSteppers w l s)) w)"

definition legStateMachine :: "WalkController \<Rightarrow> WalkController" where
  "legStateMachine w = fold legStateMachineLeg legIndices w"

subsection \<open>Tip positions and inverse kinematics\<close>

definition updateTipLeg :: "Collaborators \<Rightarrow> (nat \<Rightarrow> nat \<Rightarrow> real) \<Rightarrow> nat \<times> nat \<Rightarrow> WalkController \<Rightarrow> WalkController" where
  "updateTipLeg ext deltaZ i w =
    (case i of (l, s) \<Rightarrow>
      (let ls = legSteppers w l s;
           leg = legs w l s
       in if legState leg = WALKING then
            (let tipOffset = defaultTipPosition ls - currentTipPosition ls;
                 ls = ls\<lparr>defaultTipPosition := stanceTipPosition leg\<rparr>;
                 ls = ls\<lparr>currentTipPosition := defaultTipPosition ls - tipOffset\<rparr>;
                 ls = (if walkState w \<noteq> STOPPED then updatePosition w ls else ls);
                 adjustedPos = set_z (currentTipPosition ls) (vz (currentTipPosition ls) - deltaZ l s)
             in setLeg l s (applyLocalIK ext adjustedPos leg) (setLegStepper l s ls w))
          else w))"

definition updateTipPositions :: "Collaborators \<Rightarrow> (nat \<Rightarrow> nat \<Rightarrow> real) \<Rightarrow> WalkController \<Rightarrow> WalkController" where
  "updateTipPositions ext deltaZ w = fold (updateTipLeg ext deltaZ) legIndices w"

definition updateBodyPose :: "Collaborators \<Rightarrow> WalkController \<Rightarrow> WalkController" where
  "updateBodyPose ext w =
    (let push = scale2 (timeDelta w) (localCentreVelocity w);
         p = pose w;
         p = p\<lparr>position := position p + rotateVector ext (rotation p) (Vector3d (ux push) (uy push) 0)\<rparr>;
         p = p\<lparr>rotation := quatTimes ext (rotation p)
                (quatOfRotationVector ext (Vector3d 0.0 0.0 (- angularVelocity w * timeDelta w)))\<rparr>
     in w\<lparr>pose := p\<rparr>)"

subsection \<open>\<open>WalkController::updateWalk\<close>\<close>

definition updateWalk :: "Collaborators \<Rightarrow> Vector2d \<Rightarrow> real \<Rightarrow> (nat \<Rightarrow> nat \<Rightarrow> real) \<Rightarrow> WalkController \<Rightarrow> error + WalkController" where
  "updateWalk ext localNormalisedVelocity newCurvature deltaZ w0 =
    (case bodyVelocities localNormalisedVelocity newCurvature w0 of
       Inl e \<Rightarrow> Inl e
     | Inr w1 \<Rightarrow>
        (case robotStateMachine (onGroundRatio w0)
                (walkStateTransition (normalSpeed w0 localNormalisedVelocity) w1) of
           Inl e \<Rightarrow> Inl e
         | Inr w2 \<Rightarrow>
            (let w3 = updateTipPositions ext deltaZ (legStateMachine w2);
                 w4 = w3\<lparr>legs := clampToLimits ext (legs w3)\<rparr>
             in Inr (updateBodyPose ext w4))))"

section \<open>Pose controller: data\<close>

text \<open>
  The pose controller is the newer source (\<open>pose_controller.cpp\<close>). Its members keep their
  names without the trailing underscore, which a name cannot end with here (\<open>params_\<close>
  is \<open>parameters\<close>); \<open>Pose\<close> is the record of the walk controller's body pose. The classes \<open>Pose\<close>, \<open>Quat\<close>, \<open>Leg\<close> and
  \<open>Model\<close> and the parameter structure are declared in headers that are not among the
  sources; the records below hold what the functions modelled here read and write, the
  fields named after the accessors the source calls (\<open>getDeltaZ\<close> is \<open>delta_z\<close>,
  \<open>getCurrentTipPosition\<close> of a leg is \<open>tip_position\<close>, and so on).
\<close>

text \<open>Modelled from the spec: \<open>Pose::identity()\<close>, the zero translation and the unit rotation.\<close>

definition Pose_identity :: Pose where
  "Pose_identity = \<lparr>position = Vector3d 0 0 0, rotation = Quat 1 0 0 0\<rparr>"

datatype PosingState = POSING | STOP_POSING | POSING_COMPLETE

datatype SequenceSelection = START_UP | SHUT_DOWN

text \<open>The fields of the newer \<open>LegStepper\<close> (\<open>walk_controller.h\<close>) that the pose controller reads.\<close>

record Stepper =
  default_tip_position :: Vector3d
  swing_height :: real

record LegPoser =
  first_iteration :: bool
  master_iteration_count :: int
  origin_tip_position :: Vector3d
  current_tip_position :: Vector3d
  target_tip_position :: Vector3d
  transition_positions :: "Vector3d list"
  leg_completed_step :: bool

record RobotLeg =
  id_number :: int
  group :: int
  leg_state :: LegState
  delta_z :: real
  tip_position :: Vector3d
  desired_tip_position :: Vector3d
  leg_stepper :: Stepper
  leg_poser :: LegPoser

text \<open>
  \<open>Model\<close>: the leg container in iteration order, the leg count \<open>getLegCount\<close> returns,
  the current pose and the answer of \<open>legsBearingLoad\<close>.
\<close>

record Model =
  leg_container :: "RobotLeg list"
  leg_count :: int
  current_pose :: Pose
  legs_bearing_load :: bool

text \<open>
  The parameters the modelled functions read. \<open>max_translation\<close> is the map
  \<open>params_.max_translation.data\<close>, read with \<open>at\<close>, which throws on a missing key.
\<close>

record PoseParameters =
  max_translation :: "string \<rightharpoonup> real"
  step_frequency :: real
  time_delta :: real

record PoseController =
  model :: Model
  parameters :: PoseParameters
  impedance_pose :: Pose
  pose_frequency :: real
  pose_phase_length :: int
  normaliser :: int
  auto_posing_state :: PosingState
  reset_transition_sequence :: bool
  first_sequence_execution :: bool
  transition_step :: int
  transition_step_count :: int
  horizontal_transition_complete :: bool
  vertical_transition_complete :: bool
  set_target :: bool
  proximity_alert :: bool
  current_group :: int
  legs_completed_step :: int
  shutdown_requested :: bool

datatype pose_error = OutOfRange

section \<open>Pose controller: the impedance pose\<close>

text \<open>
  Modelled from the spec: \<open>clamped\<close> is a helper of a header that is not among the sources;
  the specification says it clamps a value to an interval.
\<close>

definition clamped :: "real \<Rightarrow> real \<Rightarrow> real \<Rightarrow> real" where
  "clamped v lo hi = max lo (min v hi)"

definition at_key :: "(string \<rightharpoonup> real) \<Rightarrow> string \<Rightarrow> pose_error + real" where
  "at_key m k = (case m k of None \<Rightarrow> Inl OutOfRange | Some v \<Rightarrow> Inr v)"

text \<open>
  \<open>PoseController::updateImpedancePose\<close>. The sum runs over the leg container; the divisor
  is the leg count of the model.
\<close>

definition updateImpedancePose :: "PoseController \<Rightarrow> pose_error + PoseController" where
  "updateImpedancePose pc =
    (let loaded_legs = leg_count (model pc);
         average_delta_z = fold (\<lambda>leg a. a + delta_z leg) (leg_container (model pc)) 0.0;
         average_delta_z = average_delta_z / real_of_int loaded_legs
     in case at_key (max_translation (parameters pc)) ''z'' of
          Inl e \<Rightarrow> Inl e
        | Inr max_translation' \<Rightarrow>
            Inr (pc\<lparr>impedance_pose := (impedance_pose pc)\<lparr>position :=
                   set_z (position (impedance_pose pc))
                     (clamped \<bar>average_delta_z\<bar> (- max_translation') max_translation')\<rparr>\<rparr>))"

section \<open>Auto poser\<close>

record AutoPoser =
  start_phase :: int
  end_phase :: int
  x_amplitude :: real
  y_amplitude :: real
  z_amplitude :: real
  roll_amplitude :: real
  pitch_amplitude :: real
  yaw_amplitude :: real
  start_check :: bool
  end_check :: "bool \<times> bool"
  allow_posing :: bool

text \<open>
  Modelled from the spec: \<open>quarticBezier\<close> is a helper of a header that is not among the
  sources, the evaluation of a degree-4 Bezier curve at the parameter \<open>t\<close>.
\<close>

definition quarticBezier :: "(nat \<Rightarrow> Vector3d) \<Rightarrow> real \<Rightarrow> Vector3d" where
  "quarticBezier points t =
    (let s = 1.0 - t
     in scale3 (s * s * s * s) (points 0)
        + scale3 (4.0 * t * s * s * s) (points 1)
        + scale3 (6.0 * t * t * s * s) (points 2)
        + scale3 (4.0 * t * t * t * s) (points 3)
        + scale3 (t * t * t * t) (points 4))"

text \<open>
  The first part of \<open>AutoPoser::updatePose\<close>: the start phase, the end phase and the phase
  it works with, as the statements of the source change them in turn.
\<close>

definition poseWindow :: "PoseController \<Rightarrow> AutoPoser \<Rightarrow> int \<Rightarrow> int \<times> int \<times> int" where
  "poseWindow poser ap phase0 =
    (let start_phase' = start_phase ap * normaliser poser;
         end_phase' = end_phase ap * normaliser poser;
         start_phase' = (if start_phase' = 0 then pose_phase_length poser else start_phase');
         end_phase' = (if end_phase' = 0 then pose_phase_length poser else end_phase')
     in if start_phase' > end_phase'
        then (let end_phase' = end_phase' + pose_phase_length poser;
                  phase' = (if phase0 < start_phase' then phase0 + pose_phase_length poser
                           else phase0)
              in (start_phase', end_phase', phase'))
        else (start_phase', end_phase', phase0))"

text \<open>The second part: the flags that start and stop the posing.\<close>

definition poseChecks :: "PoseController \<Rightarrow> int \<Rightarrow> int \<Rightarrow> int \<Rightarrow> AutoPoser \<Rightarrow> AutoPoser" where
  "poseChecks poser start_phase' end_phase' phase' ap0 =
    (let st = auto_posing_state poser;
         sync_with_step_cycle = (pose_frequency poser = - 1.0);
         ap = ap0\<lparr>start_check := (\<not> sync_with_step_cycle
                  \<or> (\<not> start_check ap0 \<and> st = POSING \<and> phase' = start_phase'))\<rparr>;
         ap = ap\<lparr>end_check := ((fst (end_check ap)
                  \<or> (st = STOP_POSING \<and> phase' = start_phase')), snd (end_check ap))\<rparr>;
         ap = ap\<lparr>end_check := (fst (end_check ap), (snd (end_check ap)
                  \<or> (st = STOP_POSING \<and> phase' = end_phase' \<and> fst (end_check ap))))\<rparr>
     in if \<not> allow_posing ap \<and> start_check ap then
          ap\<lparr>allow_posing := True, end_check := (False, False)\<rparr>
        else if allow_posing ap \<and> sync_with_step_cycle
                  \<and> fst (end_check ap) \<and> snd (end_check ap) then
          ap\<lparr>allow_posing := False, start_check := False\<rparr>
        else ap)"

text \<open>
  The third part: the pose inside the window. \<open>quatOf\<close> stands for the constructor of a
  quaternion from a rotation vector, which is not among the sources.
\<close>

definition posingCycle :: "(Vector3d \<Rightarrow> Quat) \<Rightarrow> AutoPoser \<Rightarrow> int \<Rightarrow> int \<Rightarrow> int \<Rightarrow> Pose" where
  "posingCycle quatOf ap start_phase' end_phase' phase' =
    (let iteration = phase' - start_phase' + 1;
         num_iterations = end_phase' - start_phase';
         zero = Vector3d 0.0 0.0 0.0;
         amplitude = Vector3d (x_amplitude ap) (y_amplitude ap) (z_amplitude ap);
         turn = Vector3d (roll_amplitude ap) (pitch_amplitude ap) (yaw_amplitude ap);
         first_half = (iteration \<le> num_iterations sdiv 2);
         position_control_nodes =
           (if first_half then (\<lambda>k. zero)(3 := amplitude, 4 := amplitude)
            else (\<lambda>k. zero)(0 := amplitude, 1 := amplitude));
         rotation_control_nodes =
           (if first_half then (\<lambda>k. zero)(3 := turn, 4 := turn)
            else (\<lambda>k. zero)(0 := turn, 1 := turn));
         delta_t = 1.0 / (real_of_int num_iterations / 2.0);
         offset = (if first_half then 0 else toInt (real_of_int num_iterations / 2.0));
         time_input = real_of_int (iteration - offset) * delta_t;
         position = quarticBezier position_control_nodes time_input;
         rotation = quarticBezier rotation_control_nodes time_input
     in \<lparr>position = position, rotation = quatOf rotation\<rparr>)"

text \<open>\<open>AutoPoser::updatePose\<close>: the pose it returns and the auto poser it leaves.\<close>

definition updatePose :: "(Vector3d \<Rightarrow> Quat) \<Rightarrow> PoseController \<Rightarrow> AutoPoser \<Rightarrow> int \<Rightarrow> Pose \<times> AutoPoser" where
  "updatePose quatOf poser ap0 phase0 =
    (case poseWindow poser ap0 phase0 of
       (start_phase', end_phase', phase') \<Rightarrow>
         (let ap = poseChecks poser start_phase' end_phase' phase' ap0
          in if phase' \<ge> start_phase' \<and> phase' < end_phase' \<and> allow_posing ap
             then (posingCycle quatOf ap start_phase' end_phase' phase', ap)
             else (Pose_identity, ap)))"

section \<open>Pose controller: stepping a leg to a position\<close>

text \<open>
  The constants of \<open>pose_controller.h\<close>, which is not among the sources, are parameters of
  the model, but for \<open>PROGRESS_COMPLETE\<close>.
\<close>

record SequenceConstants =
  SAFETY_FACTOR :: real
  TRANSITION_STEP_THRESHOLD :: int
  HORIZONTAL_TRANSITION_TIME :: real
  VERTICAL_TRANSITION_TIME :: real
  TIP_TOLERANCE :: real

text \<open>Modelled from the spec: the specification fixes \<open>PROGRESS_COMPLETE = 100\<close>.\<close>

definition PROGRESS_COMPLETE :: int where
  "PROGRESS_COMPLETE = 100"

text \<open>
  The collaborators outside the sources: the inverse kinematics of a leg, which returns the
  proximity to the limit of the workspace and leaves the leg where the joints put it, the
  interpolation of a rotation from the identity, and the inverse transform of a vector by a
  pose.
\<close>

record SequenceCollaborators =
  applyIK :: "RobotLeg \<Rightarrow> real \<times> RobotLeg"
  slerpFromIdentity :: "Quat \<Rightarrow> real \<Rightarrow> Quat"
  inverseTransformVector :: "Pose \<Rightarrow> Vector3d \<Rightarrow> Vector3d"

text \<open>
  Modelled from the spec: the inline members of \<open>LegPoser\<close> declared in the missing header.
  The specification keeps per leg an ordered sequence of transition positions keyed by the
  step index, looked up if present and appended to on completion of a step; the source
  says of \<open>resetStepToPosition\<close> that it skips to complete progress and resets.
\<close>

definition hasTransitionPosition :: "LegPoser \<Rightarrow> int \<Rightarrow> bool" where
  "hasTransitionPosition lp index \<longleftrightarrow> 0 \<le> index \<and> index < int (length (transition_positions lp))"

definition getTransitionPosition :: "LegPoser \<Rightarrow> int \<Rightarrow> Vector3d" where
  "getTransitionPosition lp index = transition_positions lp ! nat index"

definition addTransitionPosition :: "Vector3d \<Rightarrow> LegPoser \<Rightarrow> LegPoser" where
  "addTransitionPosition p lp = lp\<lparr>transition_positions := transition_positions lp @ [p]\<rparr>"

definition resetTransitionSequence :: "LegPoser \<Rightarrow> LegPoser" where
  "resetTransitionSequence lp = lp\<lparr>transition_positions := []\<rparr>"

definition resetStepToPosition :: "LegPoser \<Rightarrow> int \<times> LegPoser" where
  "resetStepToPosition lp = (PROGRESS_COMPLETE, lp\<lparr>first_iteration := True\<rparr>)"

text \<open>The control nodes of the two curves of \<open>stepToPosition\<close>.\<close>

definition control_nodes_primary :: "Vector3d \<Rightarrow> Vector3d \<Rightarrow> real \<Rightarrow> nat \<Rightarrow> Vector3d" where
  "control_nodes_primary origin target lift_height =
    (let n = (\<lambda>k. Vector3d 0 0 0);
         n = n(0 := origin);
         n = n(1 := origin);
         n = n(2 := origin);
         n = n(3 := target + scale3 0.75 (origin - target));
         n = n(4 := target + scale3 0.5 (origin - target));
         n = n(2 := set_z (n 2) (vz (n 2) + lift_height));
         n = n(3 := set_z (n 3) (vz (n 3) + lift_height));
         n = n(4 := set_z (n 4) (vz (n 4) + lift_height))
     in n)"

definition control_nodes_secondary :: "Vector3d \<Rightarrow> Vector3d \<Rightarrow> real \<Rightarrow> nat \<Rightarrow> Vector3d" where
  "control_nodes_secondary origin target lift_height =
    (let n = (\<lambda>k. Vector3d 0 0 0);
         n = n(0 := target + scale3 0.5 (origin - target));
         n = n(1 := target + scale3 0.25 (origin - target));
         n = n(2 := target);
         n = n(3 := target);
         n = n(4 := target);
         n = n(0 := set_z (n 0) (vz (n 0) + lift_height));
         n = n(1 := set_z (n 1) (vz (n 1) + lift_height));
         n = n(2 := set_z (n 2) (vz (n 2) + lift_height))
     in n)"

text \<open>
  \<open>LegPoser::stepToPosition\<close>, on the leg that owns the poser: the progress it returns and
  the leg it leaves. The debug output is left out.
\<close>

definition stepToPosition ::
  "SequenceCollaborators \<Rightarrow> SequenceConstants \<Rightarrow> PoseParameters \<Rightarrow> Vector3d \<Rightarrow> Pose \<Rightarrow> real \<Rightarrow> real
     \<Rightarrow> bool \<Rightarrow> RobotLeg \<Rightarrow> int \<times> RobotLeg" where
  "stepToPosition ext K prm target target_pose0 lift_height time_to_step apply_delta_z leg =
    (let lp0 = leg_poser leg;
         origin = tip_position leg
     in if first_iteration lp0
           \<and> \<bar>vx origin - vx target\<bar> < TIP_TOLERANCE K
           \<and> \<bar>vy origin - vy target\<bar> < TIP_TOLERANCE K
           \<and> \<bar>vz origin - vz target\<bar> < TIP_TOLERANCE K
        then (PROGRESS_COMPLETE,
              leg\<lparr>leg_poser := lp0\<lparr>origin_tip_position := origin,
                                    current_tip_position := target\<rparr>\<rparr>)
        else
          (let lp = (if first_iteration lp0
                     then lp0\<lparr>origin_tip_position := origin, current_tip_position := origin,
                              master_iteration_count := 0, first_iteration := False\<rparr>
                     else lp0);
               manually_manipulated = (leg_state leg = MANUAL \<or> leg_state leg = WALKING_TO_MANUAL);
               target_tip = (if apply_delta_z \<and> \<not> manually_manipulated
                             then set_z target (vz target + delta_z leg) else target);
               lp = lp\<lparr>master_iteration_count := master_iteration_count lp + 1\<rparr>;
               num_iterations = max 1 (roundToInt (time_to_step / time_delta prm));
               delta_t = 1.0 / real_of_int num_iterations;
               completion_ratio = real_of_int (master_iteration_count lp - 1)
                                    / real_of_int num_iterations;
               target_pose = target_pose0\<lparr>position := scale3 completion_ratio (position target_pose0)\<rparr>;
               target_pose = target_pose\<lparr>rotation :=
                                slerpFromIdentity ext (rotation target_pose) completion_ratio\<rparr>;
               half_swing_iteration = num_iterations sdiv 2;
               swing_iteration_count =
                 (master_iteration_count lp + (num_iterations - 1)) smod num_iterations + 1;
               new_tip_position =
                 (if swing_iteration_count \<le> half_swing_iteration
                  then quarticBezier
                         (control_nodes_primary (origin_tip_position lp) target_tip lift_height)
                         (real_of_int swing_iteration_count * delta_t * 2.0)
                  else quarticBezier
                         (control_nodes_secondary (origin_tip_position lp) target_tip lift_height)
                         (real_of_int (swing_iteration_count - half_swing_iteration) * delta_t * 2.0));
               lp = (if leg_state leg \<noteq> MANUAL
                     then lp\<lparr>current_tip_position :=
                              inverseTransformVector ext target_pose new_tip_position\<rparr>
                     else lp)
           in if master_iteration_count lp \<ge> num_iterations
              then (PROGRESS_COMPLETE, leg\<lparr>leg_poser := lp\<lparr>first_iteration := True\<rparr>\<rparr>)
              else (toInt (completion_ratio * real_of_int PROGRESS_COMPLETE),
                    leg\<lparr>leg_poser := lp\<rparr>)))"

section \<open>Pose controller: the transition sequence\<close>

text \<open>
  A loop over the leg container that carries values from one leg to the next: the body
  takes the carried value and a leg, and gives the new value and the leg it leaves.
\<close>

fun forLegs :: "('s \<Rightarrow> RobotLeg \<Rightarrow> 's \<times> RobotLeg) \<Rightarrow> 's \<Rightarrow> RobotLeg list \<Rightarrow> 's \<times> RobotLeg list" where
  "forLegs body s [] = (s, [])"
| "forLegs body s (leg # rest) =
    (case body s leg of (s', leg') \<Rightarrow>
      (case forLegs body s' rest of (s'', rest') \<Rightarrow> (s'', leg' # rest')))"

definition setLegs :: "RobotLeg list \<Rightarrow> PoseController \<Rightarrow> PoseController" where
  "setLegs ls pc = pc\<lparr>model := (model pc)\<lparr>leg_container := ls\<rparr>\<rparr>"

text \<open>The reset of a saved sequence at the top of \<open>executeSequence\<close>.\<close>

definition resetSequence :: "SequenceSelection \<Rightarrow> PoseController \<Rightarrow> PoseController" where
  "resetSequence sequence pc =
    (if reset_transition_sequence pc \<and> sequence = START_UP then
       setLegs
         (map (\<lambda>leg. leg\<lparr>leg_poser :=
                 addTransitionPosition (tip_position leg) (resetTransitionSequence (leg_poser leg))\<rparr>)
            (leg_container (model pc)))
         (pc\<lparr>reset_transition_sequence := False, first_sequence_execution := True,
              transition_step := 0\<rparr>)
     else pc)"

text \<open>
  The local variables \<open>executeSequence\<close> sets up before it steps any leg. An \<open>int\<close> used
  as a condition is true when it is not zero.
\<close>

record SequenceSetup =
  execute_horizontal_transition :: bool
  execute_vertical_transition :: bool
  next_transition_step :: int
  transition_step_target :: int
  total_progress0 :: int
  final_transition :: bool
  safety_factor :: real

definition sequenceSetup :: "SequenceConstants \<Rightarrow> SequenceSelection \<Rightarrow> PoseController \<Rightarrow> SequenceSetup" where
  "sequenceSetup K sequence pc =
    (let k = transition_step pc;
         odd_step = (k smod 2 \<noteq> 0);
         next = (case sequence of START_UP \<Rightarrow> k + 1 | SHUT_DOWN \<Rightarrow> k - 1);
         target = (case sequence of START_UP \<Rightarrow> transition_step_count pc | SHUT_DOWN \<Rightarrow> 0)
     in \<lparr>execute_horizontal_transition =
            (case sequence of START_UP \<Rightarrow> \<not> odd_step | SHUT_DOWN \<Rightarrow> odd_step),
         execute_vertical_transition =
            (case sequence of START_UP \<Rightarrow> odd_step | SHUT_DOWN \<Rightarrow> \<not> odd_step),
         next_transition_step = next,
         transition_step_target = target,
         total_progress0 =
            (case sequence of
               START_UP \<Rightarrow> (k * 100) sdiv max (transition_step_count pc) 1
             | SHUT_DOWN \<Rightarrow> 100 - (k * 100) sdiv max (transition_step_count pc) 1),
         final_transition =
            (if first_sequence_execution pc
             then horizontal_transition_complete pc \<or> vertical_transition_complete pc
             else next = target),
         safety_factor =
            (if first_sequence_execution pc
             then SAFETY_FACTOR K / real_of_int (k + 1) else 0.0)\<rparr>)"

text \<open>The target a leg is given for the next transition step, before one component is kept.\<close>

definition transitionTarget :: "SequenceSetup \<Rightarrow> RobotLeg \<Rightarrow> Vector3d" where
  "transitionTarget loc leg =
    (if hasTransitionPosition (leg_poser leg) (next_transition_step loc)
     then getTransitionPosition (leg_poser leg) (next_transition_step loc)
     else default_tip_position (leg_stepper leg))"

definition setHorizontalTarget :: "SequenceSetup \<Rightarrow> RobotLeg \<Rightarrow> RobotLeg" where
  "setHorizontalTarget loc leg =
    (let lp = (leg_poser leg)\<lparr>leg_completed_step := False\<rparr>;
         target = set_z (transitionTarget loc leg) (vz (tip_position leg))
     in leg\<lparr>leg_poser := lp\<lparr>target_tip_position := target\<rparr>\<rparr>)"

definition setVerticalTarget :: "SequenceSetup \<Rightarrow> RobotLeg \<Rightarrow> RobotLeg" where
  "setVerticalTarget loc leg =
    (let t = transitionTarget loc leg;
         target = Vector3d (vx (tip_position leg)) (vy (tip_position leg)) (vz t)
     in leg\<lparr>leg_poser := (leg_poser leg)\<lparr>target_tip_position := target\<rparr>\<rparr>)"

text \<open>
  The step of one leg in a horizontal transition: the progress of \<open>stepToPosition\<close>, the
  proximity to the limit of the workspace that the inverse kinematics reports, and the leg.
\<close>

definition horizontalStep ::
  "SequenceCollaborators \<Rightarrow> SequenceConstants \<Rightarrow> SequenceSelection \<Rightarrow> SequenceSetup \<Rightarrow> bool
     \<Rightarrow> PoseController \<Rightarrow> RobotLeg \<Rightarrow> int \<times> real \<times> RobotLeg" where
  "horizontalStep ext K sequence loc direct_step pc leg0 =
    (let target = target_tip_position (leg_poser leg0);
         apply_delta_z = (sequence = START_UP \<and> final_transition loc);
         pose' = (if apply_delta_z then current_pose (model pc) else Pose_identity);
         step_height = (if direct_step then 0.0 else swing_height (leg_stepper leg0));
         time_to_step = HORIZONTAL_TRANSITION_TIME K / step_frequency (parameters pc);
         time_to_step = time_to_step * (if first_sequence_execution pc then 2.0 else 1.0);
         (progress, leg) = stepToPosition ext K (parameters pc) target pose' step_height
                             time_to_step apply_delta_z leg0;
         leg = leg\<lparr>desired_tip_position := current_tip_position (leg_poser leg)\<rparr>;
         (limit_proximity, leg) = applyIK ext leg
     in (progress, limit_proximity, leg))"

text \<open>
  One leg of the stepping loop of a horizontal transition. The loop carries the progress
  of the last leg stepped and the pose controller, whose count of legs that completed the
  step and whose proximity alert the body writes.
\<close>

definition horizontalLeg ::
  "SequenceCollaborators \<Rightarrow> SequenceConstants \<Rightarrow> SequenceSelection \<Rightarrow> SequenceSetup \<Rightarrow> bool
     \<Rightarrow> int \<times> PoseController \<Rightarrow> RobotLeg \<Rightarrow> (int \<times> PoseController) \<times> RobotLeg" where
  "horizontalLeg ext K sequence loc direct_step acc leg0 =
    (case acc of (progress0, pc0) \<Rightarrow>
      if \<not> leg_completed_step (leg_poser leg0) then
        (if group leg0 = current_group pc0 \<or> direct_step then
           (let (progress, limit_proximity, leg) =
                  horizontalStep ext K sequence loc direct_step pc0 leg0;
                exceeded_workspace = (limit_proximity < safety_factor loc);
                (progress, leg, pc) =
                  (if first_sequence_execution pc0 \<and> exceeded_workspace then
                     (let lp = (leg_poser leg)\<lparr>target_tip_position :=
                                                  current_tip_position (leg_poser leg)\<rparr>;
                          (p, lp) = resetStepToPosition lp
                      in (p, leg\<lparr>leg_poser := lp\<rparr>, pc0\<lparr>proximity_alert := True\<rparr>))
                   else (progress, leg, pc0))
            in if progress = PROGRESS_COMPLETE then
                 (let lp = (leg_poser leg)\<lparr>leg_completed_step := True\<rparr>;
                      pc = pc\<lparr>legs_completed_step := legs_completed_step pc + 1\<rparr>;
                      lp = (if first_sequence_execution pc then
                              (let reached_target = \<not> exceeded_workspace;
                                   transition_position =
                                     (if reached_target then target_tip_position lp
                                      else current_tip_position lp)
                               in addTransitionPosition transition_position lp)
                            else lp)
                  in ((progress, pc), leg\<lparr>leg_poser := lp\<rparr>))
               else ((progress, pc), leg))
         else
           ((progress0, pc0\<lparr>legs_completed_step := legs_completed_step pc0 + 1\<rparr>),
            leg0\<lparr>leg_poser := (leg_poser leg0)\<lparr>leg_completed_step := True\<rparr>\<rparr>))
      else ((progress0, pc0), leg0))"

text \<open>
  The values the two transitions hand on: the progress of the last leg stepped, the
  normalised progress, whether the sequence completed, and the pose controller. The
  normalised progress is written by whichever transition runs, and exactly one runs.
\<close>

record SequenceRun =
  progress :: int
  normalised_progress :: int
  sequence_complete :: bool
  controller :: PoseController

text \<open>The horizontal transition: the targets, set when \<open>set_target_\<close> asks for them.\<close>

definition setHorizontalTargets :: "SequenceSetup \<Rightarrow> PoseController \<Rightarrow> PoseController" where
  "setHorizontalTargets loc pc =
    (if set_target pc
     then setLegs (map (setHorizontalTarget loc) (leg_container (model pc)))
            (pc\<lparr>set_target := False\<rparr>)
     else pc)"

text \<open>The stepping loop over the legs of the model.\<close>

definition horizontalSteps ::
  "SequenceCollaborators \<Rightarrow> SequenceConstants \<Rightarrow> SequenceSelection \<Rightarrow> SequenceSetup \<Rightarrow> bool
     \<Rightarrow> int \<Rightarrow> PoseController \<Rightarrow> int \<times> PoseController" where
  "horizontalSteps ext K sequence loc direct_step progress0 pc =
    (let ((progress', pc'), legs') =
           forLegs (horizontalLeg ext K sequence loc direct_step) (progress0, pc)
             (leg_container (model pc))
     in (progress', setLegs legs' pc'))"

text \<open>
  The check that the legs have completed their steps and that the transition has
  completed without a proximity alert.
\<close>

definition horizontalCompletion ::
  "SequenceSetup \<Rightarrow> bool \<Rightarrow> bool \<Rightarrow> PoseController \<Rightarrow> bool \<times> PoseController" where
  "horizontalCompletion loc direct_step complete0 pc0 =
    (if legs_completed_step pc0 = leg_count (model pc0) then
       (let pc = pc0\<lparr>set_target := True, legs_completed_step := 0\<rparr>
        in if current_group pc = 1 \<or> direct_step then
             (final_transition loc,
              pc\<lparr>current_group := 0,
                 transition_step := next_transition_step loc,
                 horizontal_transition_complete := (\<not> proximity_alert pc),
                 proximity_alert := False\<rparr>)
           else if current_group pc = 0 then
             (complete0, pc\<lparr>current_group := 1\<rparr>)
           else (complete0, pc))
     else (complete0, pc0))"

definition horizontalTransition ::
  "SequenceCollaborators \<Rightarrow> SequenceConstants \<Rightarrow> SequenceSelection \<Rightarrow> SequenceSetup
     \<Rightarrow> SequenceRun \<Rightarrow> SequenceRun" where
  "horizontalTransition ext K sequence loc run =
    (let pc = setHorizontalTargets loc (controller run);
         direct_step = (\<not> legs_bearing_load (model pc));
         (progress', pc) = horizontalSteps ext K sequence loc direct_step (progress run) pc;
         normalised =
           (if direct_step then progress' sdiv max (transition_step_count pc) 1
            else (progress' sdiv 2 + (if current_group pc = 0 then 0 else 50))
                   sdiv max (transition_step_count pc) 1);
         (complete, pc) = horizontalCompletion loc direct_step (sequence_complete run) pc
     in \<lparr>progress = progress', normalised_progress = normalised,
         sequence_complete = complete, controller = pc\<rparr>)"

text \<open>The vertical transition: the targets, set when \<open>set_target_\<close> asks for them.\<close>

definition setVerticalTargets :: "SequenceSetup \<Rightarrow> PoseController \<Rightarrow> PoseController" where
  "setVerticalTargets loc pc =
    (if set_target pc
     then setLegs (map (setVerticalTarget loc) (leg_container (model pc)))
            (pc\<lparr>set_target := False\<rparr>)
     else pc)"

text \<open>
  One leg of the stepping loop of a vertical transition. The loop carries the progress of
  the last leg stepped and whether all legs stayed within the workspace.
\<close>

definition verticalLeg ::
  "SequenceCollaborators \<Rightarrow> SequenceConstants \<Rightarrow> SequenceSelection \<Rightarrow> SequenceSetup \<Rightarrow> PoseController
     \<Rightarrow> int \<times> bool \<Rightarrow> RobotLeg \<Rightarrow> (int \<times> bool) \<times> RobotLeg" where
  "verticalLeg ext K sequence loc pc acc leg0 =
    (case acc of (progress0, all_legs_within_workspace) \<Rightarrow>
      (let target = target_tip_position (leg_poser leg0);
           apply_delta_z = (sequence = START_UP \<and> final_transition loc);
           pose' = (if apply_delta_z then current_pose (model pc) else Pose_identity);
           time_to_step = VERTICAL_TRANSITION_TIME K / step_frequency (parameters pc);
           time_to_step = time_to_step * (if first_sequence_execution pc then 2.0 else 1.0);
           (progress, leg) = stepToPosition ext K (parameters pc) target pose' 0.0
                               time_to_step apply_delta_z leg0;
           leg = leg\<lparr>desired_tip_position := current_tip_position (leg_poser leg)\<rparr>;
           (limit_proximity, leg) = applyIK ext leg
       in ((progress, all_legs_within_workspace \<and> \<not> (limit_proximity < safety_factor loc)),
           leg)))"

definition verticalSteps ::
  "SequenceCollaborators \<Rightarrow> SequenceConstants \<Rightarrow> SequenceSelection \<Rightarrow> SequenceSetup
     \<Rightarrow> int \<Rightarrow> PoseController \<Rightarrow> int \<times> bool \<times> PoseController" where
  "verticalSteps ext K sequence loc progress0 pc =
    (let ((progress', all_legs_within_workspace), legs') =
           forLegs (verticalLeg ext K sequence loc pc) (progress0, True)
             (leg_container (model pc))
     in (progress', all_legs_within_workspace, setLegs legs' pc))"

text \<open>
  The end of a vertical transition, once all legs have completed it, either by reaching
  the target or by exceeding the safe workspace: one leg, and the controller.
\<close>

definition completeVerticalLeg :: "bool \<Rightarrow> bool \<Rightarrow> int \<Rightarrow> RobotLeg \<Rightarrow> int \<times> RobotLeg" where
  "completeVerticalLeg first all_legs_within_workspace progress0 leg =
    (let (p, lp) = resetStepToPosition (leg_poser leg);
         lp = (if first then
                 (let reached_target = all_legs_within_workspace;
                      transition_position =
                        (if reached_target then target_tip_position lp
                         else current_tip_position lp)
                  in addTransitionPosition transition_position lp)
               else lp)
     in (p, leg\<lparr>leg_poser := lp\<rparr>))"

definition verticalCompletion ::
  "SequenceSetup \<Rightarrow> bool \<Rightarrow> int \<Rightarrow> bool \<Rightarrow> PoseController \<Rightarrow> int \<times> bool \<times> PoseController" where
  "verticalCompletion loc all_legs_within_workspace progress0 complete0 pc0 =
    (if (\<not> all_legs_within_workspace \<and> first_sequence_execution pc0)
          \<or> progress0 = PROGRESS_COMPLETE then
       (let (p, legs') =
              forLegs (completeVerticalLeg (first_sequence_execution pc0)
                         all_legs_within_workspace)
                progress0 (leg_container (model pc0));
            pc = setLegs legs' pc0
        in (p, final_transition loc,
            pc\<lparr>vertical_transition_complete := all_legs_within_workspace,
               transition_step := next_transition_step loc,
               set_target := True\<rparr>))
     else (progress0, complete0, pc0))"

definition verticalTransition ::
  "SequenceCollaborators \<Rightarrow> SequenceConstants \<Rightarrow> SequenceSelection \<Rightarrow> SequenceSetup
     \<Rightarrow> SequenceRun \<Rightarrow> SequenceRun" where
  "verticalTransition ext K sequence loc run =
    (let pc = setVerticalTargets loc (controller run);
         (progress', all_legs_within_workspace, pc) =
           verticalSteps ext K sequence loc (progress run) pc;
         (progress', complete, pc) =
           verticalCompletion loc all_legs_within_workspace progress'
             (sequence_complete run) pc
     in \<lparr>progress = progress',
         normalised_progress = progress' sdiv max (transition_step_count pc) 1,
         sequence_complete = complete, controller = pc\<rparr>)"

text \<open>
  The two transitions in the order of the source, each under its flag, from the reset
  controller.
\<close>

definition sequenceRun ::
  "SequenceCollaborators \<Rightarrow> SequenceConstants \<Rightarrow> SequenceSelection \<Rightarrow> PoseController \<Rightarrow> SequenceRun" where
  "sequenceRun ext K sequence pc0 =
    (let pc = resetSequence sequence pc0;
         loc = sequenceSetup K sequence pc;
         run = \<lparr>progress = 0, normalised_progress = 0, sequence_complete = False,
                controller = pc\<rparr>;
         run = (if execute_horizontal_transition loc
                then horizontalTransition ext K sequence loc run else run);
         run = (if execute_vertical_transition loc
                then verticalTransition ext K sequence loc run else run)
     in run)"

text \<open>
  The end of \<open>executeSequence\<close>: the count of steps, the guard on their number and the value
  returned. \<open>ros::shutdown()\<close> only asks the node to stop, and the function goes on to
  return.
\<close>

definition finishSequence :: "SequenceConstants \<Rightarrow> int \<Rightarrow> SequenceRun \<Rightarrow> int \<times> PoseController" where
  "finishSequence K total_progress run =
    (let pc = controller run;
         pc = (if first_sequence_execution pc
               then pc\<lparr>transition_step_count := transition_step pc\<rparr> else pc);
         pc = (if transition_step pc > TRANSITION_STEP_THRESHOLD K
               then pc\<lparr>shutdown_requested := True\<rparr> else pc)
     in if sequence_complete run then
          (PROGRESS_COMPLETE,
           pc\<lparr>set_target := True, vertical_transition_complete := False,
              horizontal_transition_complete := False, first_sequence_execution := False\<rparr>)
        else
          (let total_progress' = min (total_progress + normalised_progress run) (PROGRESS_COMPLETE - 1)
           in (if first_sequence_execution pc then - 1 else total_progress', pc)))"

text \<open>\<open>PoseController::executeSequence\<close>.\<close>

definition executeSequence ::
  "SequenceCollaborators \<Rightarrow> SequenceConstants \<Rightarrow> SequenceSelection \<Rightarrow> PoseController
     \<Rightarrow> int \<times> PoseController" where
  "executeSequence ext K sequence pc =
    finishSequence K
      (total_progress0 (sequenceSetup K sequence (resetSequence sequence pc)))
      (sequenceRun ext K sequence pc)"

section \<open>Projections and example inputs used in the proofs\<close>

definition body_of :: "WalkController \<Rightarrow> WalkState \<times> real \<times> Vector2d \<times> Parameters" where
  "body_of w = (walkState w, angularVelocity w, localCentreVelocity w, params w)"

definition gait_of :: "WalkController \<Rightarrow> int \<times> int \<times> int \<times> int \<times> int" where
  "gait_of w = (phaseLength w, swingStart w, swingEnd w, stanceEnd w, stanceStart w)"

definition restLegStepper :: LegStepper where
  "restLegStepper =
    \<lparr>phase = 0, phaseOffset = 0, state = STANCE, inCorrectPhase = False,
     completedFirstStep = False, strideVector = Vector2d 0 0,
     defaultTipPosition = Vector3d 0 0 0, currentTipPosition = Vector3d 0 0 0,
     tipVelocity = Vector3d 0 0 0, swingOriginTipPosition = Vector3d 0 0 0,
     stanceOriginTipPosition = Vector3d 0 0 0,
     swing1ControlNodes = (\<lambda>k. Vector3d 0 0 0), swing2ControlNodes = (\<lambda>k. Vector3d 0 0 0),
     stanceControlNodes = (\<lambda>k. Vector3d 0 0 0), swingDeltaT = 0, stanceDeltaT = 0\<rparr>"

definition restLeg :: Leg where
  "restLeg = \<lparr>localTipPosition = Vector3d 0 0 0, stanceTipPosition = Vector3d 0 0 0,
              legState = WALKING\<rparr>"

definition stoppedWalker :: WalkController where
  "stoppedWalker =
    \<lparr>stepClearance = 1/10, stepDepth = 0, maximumBodyHeight = 1, timeDelta = 1/50,
     stepFrequency = 25/2, phaseLength = 4, stanceEnd = 1, swingStart = 1, swingEnd = 3,
     stanceStart = 3, walkState = STOPPED, legsInCorrectPhase = 0, legsCompletedFirstStep = 0,
     minFootprintRadius = 1/4, stanceRadius = 1, angularVelocity = 0,
     localCentreVelocity = Vector2d 0 0,
     params = \<lparr>maxCurvatureSpeed = 1, maxAcceleration = - 1\<rparr>,
     legSteppers = (\<lambda>l s. restLegStepper), legs = (\<lambda>l s. restLeg),
     pose = \<lparr>position = Vector3d 0 0 0, rotation = Quat 1 0 0 0\<rparr>\<rparr>"

definition idleCollaborators :: Collaborators where
  "idleCollaborators =
    \<lparr>applyLocalIK = (\<lambda>p leg. leg\<lparr>localTipPosition := p\<rparr>), clampToLimits = (\<lambda>x. x),
     rotateVector = (\<lambda>q v. v), quatOfRotationVector = (\<lambda>v. Quat 1 0 0 0),
     quatTimes = (\<lambda>a b. a)\<rparr>"

definition saneParameters :: "WalkController \<Rightarrow> bool" where
  "saneParameters w \<longleftrightarrow>
     0 < timeDelta w \<and> 0 < phaseLength w
     \<and> 0 \<le> swingEnd w - swingStart w \<and> swingEnd w - swingStart w < phaseLength w
     \<and> stanceRadius w \<noteq> 0
     \<and> 0 \<le> maxCurvatureSpeed (params w)
     \<and> (if maxAcceleration (params w) = - 1 then 0 \<le> minFootprintRadius w
         else 0 \<le> maxAcceleration (params w))"

definition forcedStanceWalker :: WalkController where
  "forcedStanceWalker =
    stoppedWalker\<lparr>walkState := STARTING,
      legSteppers := (\<lambda>l s. restLegStepper\<lparr>phase := 2, phaseOffset := 2, state := FORCE_STANCE\<rparr>)\<rparr>"

definition swingingWalker :: WalkController where
  "swingingWalker =
    stoppedWalker\<lparr>walkState := MOVING,
      legSteppers := (\<lambda>l s. restLegStepper\<lparr>phase := 2\<rparr>)\<rparr>"

definition stoppedLegStep :: "real \<Rightarrow> WalkController \<Rightarrow> LegStepper \<Rightarrow> Leg \<Rightarrow> LegStepper" where
  "stoppedLegStep r w ls leg =
    ls\<lparr>strideVector := strideOf r w leg, inCorrectPhase := False,
       completedFirstStep := False, phase := 0, state := STANCE\<rparr>"

definition stoppedLeg :: "real \<Rightarrow> nat \<times> nat \<Rightarrow> WalkController \<Rightarrow> WalkController" where
  "stoppedLeg r i w =
    (case i of (l, s) \<Rightarrow>
       setLegStepper l s (stoppedLegStep r w (legSteppers w l s) (legs w l s)) w)"

definition reviseTip :: "LegStepper \<Rightarrow> Leg \<Rightarrow> LegStepper" where
  "reviseTip ls leg =
    (if legState leg = WALKING
     then ls\<lparr>defaultTipPosition := stanceTipPosition leg,
             currentTipPosition := stanceTipPosition leg
                - (defaultTipPosition ls - currentTipPosition ls)\<rparr>
     else ls)"

definition deepWalker :: WalkController where
  "deepWalker = stoppedWalker\<lparr>stepDepth := 1/10, walkState := MOVING\<rparr>"

definition stanceEntryStepper :: LegStepper where
  "stanceEntryStepper = restLegStepper\<lparr>phase := 3, completedFirstStep := True\<rparr>"

definition swingEntryStepper :: LegStepper where
  "swingEntryStepper =
     (updatePosition deepWalker
       ((updatePosition deepWalker
          ((updatePosition deepWalker stanceEntryStepper)\<lparr>phase := 0\<rparr>))\<lparr>phase := 1, state := SWING\<rparr>))"

definition saggingLeg :: RobotLeg where
  "saggingLeg =
    \<lparr>id_number = 0, group = 0, leg_state = WALKING, delta_z = - (1/100),
     tip_position = Vector3d 0 0 0, desired_tip_position = Vector3d 0 0 0,
     leg_stepper = \<lparr>default_tip_position = Vector3d 0 0 0, swing_height = 1/10\<rparr>,
     leg_poser = \<lparr>first_iteration = True, master_iteration_count = 0,
       origin_tip_position = Vector3d 0 0 0, current_tip_position = Vector3d 0 0 0,
       target_tip_position = Vector3d 0 0 0, transition_positions = [],
       leg_completed_step = False\<rparr>\<rparr>"

definition saggingController :: PoseController where
  "saggingController =
    \<lparr>model = \<lparr>leg_container = [saggingLeg, saggingLeg\<lparr>id_number := 1, group := 1\<rparr>],
              leg_count = 2, current_pose = Pose_identity, legs_bearing_load = True\<rparr>,
     parameters = \<lparr>max_translation = [''z'' \<mapsto> 1/20], step_frequency = 1, time_delta = 1/50\<rparr>,
     impedance_pose = Pose_identity, pose_frequency = - 1, pose_phase_length = 4,
     normaliser = 1, auto_posing_state = POSING,
     reset_transition_sequence = False, first_sequence_execution = False,
     transition_step = 0, transition_step_count = 2,
     horizontal_transition_complete = False, vertical_transition_complete = False,
     set_target = True, proximity_alert = False, current_group = 0,
     legs_completed_step = 0, shutdown_requested = False\<rparr>"

definition wrapPoser :: AutoPoser where
  "wrapPoser =
    \<lparr>start_phase = 0, end_phase = 2, x_amplitude = 0, y_amplitude = 0, z_amplitude = 1/50,
     roll_amplitude = 0, pitch_amplitude = 0, yaw_amplitude = 0,
     start_check = False, end_check = (False, False), allow_posing = True\<rparr>"

definition unitQuat :: "Vector3d \<Rightarrow> Quat" where
  "unitQuat v = Quat 1 0 0 0"

definition haltedLegStepper :: LegStepper where
  "haltedLegStepper =
    restLegStepper\<lparr>phase := 3, state := FORCE_STOP, inCorrectPhase := True,
      completedFirstStep := True, currentTipPosition := Vector3d (1/100) 0 0,
      tipVelocity := Vector3d (1/10) 0 0\<rparr>"

definition haltingWalker :: WalkController where
  "haltingWalker =
    stoppedWalker\<lparr>walkState := STOPPING, legsInCorrectPhase := 6,
      legSteppers := (\<lambda>l s. haltedLegStepper)\<rparr>"

definition earlySwingWalker :: WalkController where
  "earlySwingWalker =
    stoppedWalker\<lparr>stanceEnd := 0, swingStart := 0, swingEnd := 2, stanceStart := 2\<rparr>"

text \<open>
  A leg that \<open>stepToPosition\<close> can step: its poser starts a new step or has counted no
  negative number of iterations.
\<close>

definition steppable :: "RobotLeg \<Rightarrow> bool" where
  "steppable leg \<longleftrightarrow> first_iteration (leg_poser leg) \<or> 0 \<le> master_iteration_count (leg_poser leg)"

text \<open>
  A leg stopped where it is (\<open>pose_controller.cpp\<close>, lines 295 to 310): the target is the
  current tip position, the step is reset and marked completed, and the current tip position
  is the transition position of the step.
\<close>

definition stoppedInPlace :: "RobotLeg \<Rightarrow> RobotLeg" where
  "stoppedInPlace leg =
    (let lp = (leg_poser leg)\<lparr>target_tip_position := current_tip_position (leg_poser leg)\<rparr>;
         lp = snd (resetStepToPosition lp);
         lp = lp\<lparr>leg_completed_step := True\<rparr>
     in leg\<lparr>leg_poser := addTransitionPosition (current_tip_position lp) lp\<rparr>)"

text \<open>
  The tests of the stepping loop under which a leg is stopped early: it has not completed
  its step, it is in the stepping group or all legs step at once, the sequence executes for
  the first time and the inverse kinematics reports a proximity below the safety factor.
\<close>

definition exceedsWorkspace ::
  "SequenceCollaborators \<Rightarrow> SequenceConstants \<Rightarrow> SequenceSelection \<Rightarrow> SequenceSetup \<Rightarrow> bool
     \<Rightarrow> PoseController \<Rightarrow> RobotLeg \<Rightarrow> bool" where
  "exceedsWorkspace ext K sequence loc d pc leg \<longleftrightarrow>
     \<not> leg_completed_step (leg_poser leg) \<and> (group leg = current_group pc \<or> d)
     \<and> first_sequence_execution pc
     \<and> fst (snd (horizontalStep ext K sequence loc d pc leg)) < safety_factor loc"


text \<open>
  The controller after a leg was stopped early.
\<close>

definition alerted :: "PoseController \<Rightarrow> PoseController" where
  "alerted pc = pc\<lparr>proximity_alert := True, legs_completed_step := legs_completed_step pc + 1\<rparr>"

text \<open>
  Some leg exceeds the workspace in the horizontal transition of a call of
  \<open>executeSequence\<close>; a proximity alert is pending at a call that executes a horizontal
  transition.
\<close>

definition alertedLegs ::
  "SequenceCollaborators \<Rightarrow> SequenceConstants \<Rightarrow> SequenceSelection \<Rightarrow> PoseController \<Rightarrow> bool" where
  "alertedLegs ext K sequence pc0 \<longleftrightarrow>
    (let pc = resetSequence sequence pc0;
         loc = sequenceSetup K sequence pc;
         pc = setHorizontalTargets loc pc;
         direct_step = (\<not> legs_bearing_load (model pc))
     in execute_horizontal_transition loc
        \<and> (\<exists>leg\<in>set (leg_container (model pc)).
              exceedsWorkspace ext K sequence loc direct_step pc leg))"

definition alertPending :: "SequenceConstants \<Rightarrow> SequenceSelection \<Rightarrow> PoseController \<Rightarrow> bool" where
  "alertPending K sequence pc0 \<longleftrightarrow>
     execute_horizontal_transition (sequenceSetup K sequence (resetSequence sequence pc0))
     \<and> proximity_alert pc0"


definition tightIK :: SequenceCollaborators where
  "tightIK =
    \<lparr>applyIK = (\<lambda>leg. (1/10, leg\<lparr>tip_position := desired_tip_position leg\<rparr>)),
     slerpFromIdentity = (\<lambda>q t. q), inverseTransformVector = (\<lambda>p v. v)\<rparr>"

definition sequenceConstants :: SequenceConstants where
  "sequenceConstants =
    \<lparr>SAFETY_FACTOR = 3/20, TRANSITION_STEP_THRESHOLD = 20, HORIZONTAL_TRANSITION_TIME = 1,
     VERTICAL_TRANSITION_TIME = 3, TIP_TOLERANCE = 1/1000\<rparr>"

text \<open>
  A robot that has completed its start-up sequence of two steps: the legs stand at their
  default tip positions, the last of their three transition positions.
\<close>

definition standingLeg :: RobotLeg where
  "standingLeg =
    \<lparr>id_number = 0, group = 0, leg_state = WALKING, delta_z = 0,
     tip_position = Vector3d (1/5) 0 (- (1/10)), desired_tip_position = Vector3d (1/5) 0 (- (1/10)),
     leg_stepper = \<lparr>default_tip_position = Vector3d (1/5) 0 (- (1/10)), swing_height = 1/10\<rparr>,
     leg_poser = \<lparr>first_iteration = True, master_iteration_count = 0,
       origin_tip_position = Vector3d (1/5) 0 0,
       current_tip_position = Vector3d (1/5) 0 (- (1/10)),
       target_tip_position = Vector3d (1/5) 0 (- (1/10)),
       transition_positions =
         [Vector3d (1/10) 0 0, Vector3d (1/5) 0 0, Vector3d (1/5) 0 (- (1/10))],
       leg_completed_step = True\<rparr>\<rparr>"

definition standingController :: PoseController where
  "standingController =
    \<lparr>model = \<lparr>leg_container = [standingLeg, standingLeg\<lparr>id_number := 1, group := 1\<rparr>],
              leg_count = 2, current_pose = Pose_identity, legs_bearing_load = True\<rparr>,
     parameters = \<lparr>max_translation = Map.empty, step_frequency = 1, time_delta = 1/50\<rparr>,
     impedance_pose = Pose_identity, pose_frequency = - 1, pose_phase_length = 4,
     normaliser = 1, auto_posing_state = POSING,
     reset_transition_sequence = False, first_sequence_execution = False,
     transition_step = 2, transition_step_count = 2,
     horizontal_transition_complete = False, vertical_transition_complete = False,
     set_target = True, proximity_alert = False, current_group = 0,
     legs_completed_step = 0, shutdown_requested = False\<rparr>"



text \<open>
  A robot executing its start-up sequence for the first time, in the middle of the
  horizontal step 0: the leg of group 0 steps, the leg of group 1 waits its turn; and the
  controller after one more call.
\<close>

definition unpackingLeg :: RobotLeg where
  "unpackingLeg =
    standingLeg\<lparr>tip_position := Vector3d (1/10) 0 0, desired_tip_position := Vector3d (1/10) 0 0,
      leg_poser := (leg_poser standingLeg)
        \<lparr>first_iteration := False, master_iteration_count := 10,
         origin_tip_position := Vector3d (1/10) 0 0,
         current_tip_position := Vector3d (1/10) 0 0,
         target_tip_position := Vector3d (1/5) 0 0,
         transition_positions := [Vector3d (1/10) 0 0],
         leg_completed_step := False\<rparr>\<rparr>"

definition waitingLeg :: RobotLeg where
  "waitingLeg =
    standingLeg\<lparr>id_number := 1, group := 1,
      tip_position := Vector3d (1/10) 0 0, desired_tip_position := Vector3d (1/10) 0 0,
      leg_poser := (leg_poser standingLeg)
        \<lparr>origin_tip_position := Vector3d (1/10) 0 0,
         current_tip_position := Vector3d (1/10) 0 0,
         target_tip_position := Vector3d (1/5) 0 0,
         transition_positions := [Vector3d (1/10) 0 0]\<rparr>\<rparr>"

definition unpackingController :: PoseController where
  "unpackingController =
    standingController
      \<lparr>model := \<lparr>leg_container = [unpackingLeg, waitingLeg], leg_count = 2,
                 current_pose = Pose_identity, legs_bearing_load = True\<rparr>,
       first_sequence_execution := True, transition_step := 0, transition_step_count := 0,
       set_target := False, legs_completed_step := 1\<rparr>"

definition unpackingSetup :: SequenceSetup where
  "unpackingSetup = sequenceSetup sequenceConstants START_UP unpackingController"

definition unpackingNext :: PoseController where
  "unpackingNext = snd (executeSequence tightIK sequenceConstants START_UP unpackingController)"
section \<open>The walk cycle: lemmas\<close>

subsection \<open>Loops over the legs\<close>

lemma forEachLeg_invariant:
  assumes "forEachLeg body is a = Inr b" and "P a"
    and "\<And>i x y. i \<in> set is \<Longrightarrow> body i x = Inr y \<Longrightarrow> P x \<Longrightarrow> P y"
  shows "P b"
  using assms
proof (induction "is" arbitrary: a)
  case Nil
  then show ?case by simp
next
  case (Cons i rest)
  from Cons.prems(1) obtain a' where step: "body i a = Inr a'" and rest: "forEachLeg body rest a' = Inr b"
    by (auto split: sum.splits)
  have "P a'" using Cons.prems(3)[of i a a'] step Cons.prems(2) by simp
  then show ?case using Cons.IH[OF rest] Cons.prems(3) by auto
qed

lemma forEachLeg_total:
  assumes "P a" and "\<And>i x. i \<in> set is \<Longrightarrow> P x \<Longrightarrow> \<exists>y. body i x = Inr y \<and> P y"
  shows "\<exists>b. forEachLeg body is a = Inr b"
  using assms
proof (induction "is" arbitrary: a)
  case Nil
  then show ?case by simp
next
  case (Cons i rest)
  have "\<exists>y. body i a = Inr y \<and> P y"
    using Cons.prems(2)[of i a] Cons.prems(1) by simp
  then obtain y where y: "body i a = Inr y" "P y" by blast
  have "\<exists>b. forEachLeg body rest y = Inr b"
    using Cons.IH[of y] y(2) Cons.prems(2) by auto
  then show ?case using y(1) by simp
qed

lemma fold_invariant:
  assumes "P a" and "\<And>i x. i \<in> set is \<Longrightarrow> P x \<Longrightarrow> P (f i x)"
  shows "P (fold f is a)"
  using assms by (induction "is" arbitrary: a) auto

subsection \<open>What each part of the tick leaves alone\<close>

lemma setLegStepper_fields [simp]:
  "walkState (setLegStepper l s ls w) = walkState w"
  "legsInCorrectPhase (setLegStepper l s ls w) = legsInCorrectPhase w"
  "legsCompletedFirstStep (setLegStepper l s ls w) = legsCompletedFirstStep w"
  "angularVelocity (setLegStepper l s ls w) = angularVelocity w"
  "localCentreVelocity (setLegStepper l s ls w) = localCentreVelocity w"
  "params (setLegStepper l s ls w) = params w"
  "legs (setLegStepper l s ls w) = legs w"
  "phaseLength (setLegStepper l s ls w) = phaseLength w"
  "swingStart (setLegStepper l s ls w) = swingStart w"
  "swingEnd (setLegStepper l s ls w) = swingEnd w"
  "stanceStart (setLegStepper l s ls w) = stanceStart w"
  "stanceEnd (setLegStepper l s ls w) = stanceEnd w"
  "stepFrequency (setLegStepper l s ls w) = stepFrequency w"
  "legSteppers (setLegStepper l s ls w) l' s' = (if l' = l \<and> s' = s then ls else legSteppers w l' s')"
  by (simp_all add: setLegStepper_def)

lemma setLeg_fields [simp]:
  "walkState (setLeg l s leg w) = walkState w"
  "legsInCorrectPhase (setLeg l s leg w) = legsInCorrectPhase w"
  "legsCompletedFirstStep (setLeg l s leg w) = legsCompletedFirstStep w"
  "angularVelocity (setLeg l s leg w) = angularVelocity w"
  "localCentreVelocity (setLeg l s leg w) = localCentreVelocity w"
  "params (setLeg l s leg w) = params w"
  "legSteppers (setLeg l s leg w) = legSteppers w"
  "legs (setLeg l s leg w) l' s' = (if l' = l \<and> s' = s then leg else legs w l' s')"
  by (simp_all add: setLeg_def)

text \<open>The fields of the walk controller that only the first two parts of a tick write.\<close>

lemma startingLeg_body:
  "startingLeg ls w = Inr (ls', w') \<Longrightarrow> body_of w' = body_of w"
  by (auto simp: startingLeg_def body_of_def Let_def split: sum.splits if_splits)

lemma stoppingLeg_body:
  "stoppingLeg l s ls w = Inr (ls', w') \<Longrightarrow> body_of w' = body_of w"
  by (auto simp: stoppingLeg_def body_of_def Let_def split: sum.splits if_splits)

lemma body_of_setLegStepper [simp]: "body_of (setLegStepper l s ls w) = body_of w"
  by (simp add: body_of_def)

lemma body_of_setLeg [simp]: "body_of (setLeg l s ls w) = body_of w"
  by (simp add: body_of_def)

lemma robotStateMachineLeg_body:
  "robotStateMachineLeg r i w = Inr w' \<Longrightarrow> body_of w' = body_of w"
  by (cases i) (auto simp: robotStateMachineLeg_def Let_def
      dest: startingLeg_body stoppingLeg_body split: sum.splits if_splits prod.splits)

lemma robotStateMachine_body:
  "robotStateMachine r w = Inr w' \<Longrightarrow> body_of w' = body_of w"
  unfolding robotStateMachine_def
  by (erule forEachLeg_invariant[where P="\<lambda>x. body_of x = body_of w"])
     (auto dest: robotStateMachineLeg_body)

lemma legStateMachine_body: "body_of (legStateMachine w) = body_of w"
  unfolding legStateMachine_def
  by (rule fold_invariant) (auto simp: legStateMachineLeg_def)

lemma updateTipPositions_body: "body_of (updateTipPositions ext dz w) = body_of w"
  unfolding updateTipPositions_def
  by (rule fold_invariant) (auto simp: updateTipLeg_def Let_def)

lemma updateBodyPose_body: "body_of (updateBodyPose ext w) = body_of w"
  by (simp add: updateBodyPose_def body_of_def Let_def)

lemma clamp_body: "body_of (w\<lparr>legs := x\<rparr>) = body_of w"
  by (simp add: body_of_def)

lemma updateWalk_stages:
  assumes "updateWalk ext v c dz w = Inr w'"
  obtains w1 w2 where "bodyVelocities v c w = Inr w1"
    and "robotStateMachine (onGroundRatio w) (walkStateTransition (normalSpeed w v) w1) = Inr w2"
    and "w' = updateBodyPose ext
           ((updateTipPositions ext dz (legStateMachine w2))
              \<lparr>legs := clampToLimits ext (legs (updateTipPositions ext dz (legStateMachine w2)))\<rparr>)"
  using assms by (auto simp: updateWalk_def Let_def split: sum.splits)

lemma after_transition_body:
  assumes "robotStateMachine r t = Inr w2"
    and "w' = updateBodyPose ext
           ((updateTipPositions ext dz (legStateMachine w2))
              \<lparr>legs := clampToLimits ext (legs (updateTipPositions ext dz (legStateMachine w2)))\<rparr>)"
  shows "body_of w' = body_of t"
  using assms
  by (simp add: updateBodyPose_body clamp_body updateTipPositions_body legStateMachine_body
      robotStateMachine_body)

lemma gait_of_setLegStepper [simp]: "gait_of (setLegStepper l s ls w) = gait_of w"
  by (simp add: gait_of_def)

lemma gait_of_setLeg [simp]: "gait_of (setLeg l s ls w) = gait_of w"
  by (simp add: gait_of_def setLeg_def)

lemma startingLeg_gait:
  "startingLeg ls w = Inr (ls', w') \<Longrightarrow> gait_of w' = gait_of w"
  by (auto simp: startingLeg_def gait_of_def Let_def split: sum.splits if_splits)

lemma stoppingLeg_gait:
  "stoppingLeg l s ls w = Inr (ls', w') \<Longrightarrow> gait_of w' = gait_of w"
  by (auto simp: stoppingLeg_def gait_of_def Let_def split: sum.splits if_splits)

lemma robotStateMachineLeg_gait:
  "robotStateMachineLeg r i w = Inr w' \<Longrightarrow> gait_of w' = gait_of w"
  by (cases i) (auto simp: robotStateMachineLeg_def Let_def
      dest: startingLeg_gait stoppingLeg_gait split: sum.splits if_splits prod.splits)

lemma remainder_returns: "b \<noteq> 0 \<Longrightarrow> \<exists>p. remainder a b = Inr p"
  by (simp add: remainder_def)

lemma startingLeg_returns: "phaseLength w \<noteq> 0 \<Longrightarrow> \<exists>y. startingLeg ls w = Inr y"
  by (simp add: startingLeg_def remainder_def Let_def split: prod.splits)

lemma stoppingLeg_returns: "phaseLength w \<noteq> 0 \<Longrightarrow> \<exists>y. stoppingLeg l s ls w = Inr y"
  by (simp add: stoppingLeg_def remainder_def Let_def split: prod.splits)

lemma robotStateMachineLeg_returns:
  assumes "phaseLength w \<noteq> 0"
  shows "\<exists>y. robotStateMachineLeg r i w = Inr y"
proof (cases i)
  case (Pair l s)
  obtain a where a: "startingLeg ((legSteppers w l s)\<lparr>strideVector := strideOf r w (legs w l s)\<rparr>) w = Inr a"
    using startingLeg_returns[OF assms] by blast
  obtain b where b: "stoppingLeg l s ((legSteppers w l s)\<lparr>strideVector := strideOf r w (legs w l s)\<rparr>) w = Inr b"
    using stoppingLeg_returns[OF assms] by blast
  show ?thesis
    using a b assms
    by (cases a; cases b) (simp add: Pair robotStateMachineLeg_def Let_def remainder_def)
qed

lemma robotStateMachine_returns:
  assumes "phaseLength w \<noteq> 0"
  shows "\<exists>y. robotStateMachine r w = Inr y"
  unfolding robotStateMachine_def
proof (rule forEachLeg_total[where P="\<lambda>x. gait_of x = gait_of w"])
  show "gait_of w = gait_of w" ..
next
  fix i x assume g: "gait_of x = gait_of w"
  then have "phaseLength x \<noteq> 0" using assms by (simp add: gait_of_def)
  then obtain y where y: "robotStateMachineLeg r i x = Inr y"
    using robotStateMachineLeg_returns by blast
  then have "gait_of y = gait_of w" using robotStateMachineLeg_gait g by metis
  then show "\<exists>y. robotStateMachineLeg r i x = Inr y \<and> gait_of y = gait_of w"
    using y by blast
qed

lemma bodyVelocities_returns:
  "normalSpeed w v < 1.01 \<Longrightarrow> \<exists>w1. bodyVelocities v c w = Inr w1"
  by (simp add: bodyVelocities_def normalSpeed_def Let_def)

lemma updateAngularVelocity_shape:
  "updateAngularVelocity c sp w = w\<lparr>angularVelocity := angularVelocity (updateAngularVelocity c sp w)\<rparr>"
  by (simp add: updateAngularVelocity_def Let_def)

lemma deriveMaxAcceleration_shape:
  "deriveMaxAcceleration w = w\<lparr>params := params (deriveMaxAcceleration w)\<rparr>"
  by (simp add: deriveMaxAcceleration_def)

lemma updateCentreVelocity_shape:
  "updateCentreVelocity a w = w\<lparr>localCentreVelocity := localCentreVelocity (updateCentreVelocity a w)\<rparr>"
  by (simp add: updateCentreVelocity_def)

lemma bodyVelocities_shape:
  assumes "bodyVelocities v c w = Inr w1"
  shows "\<exists>A P L. w1 = w\<lparr>angularVelocity := A, params := P, localCentreVelocity := L\<rparr>"
proof -
  let ?wa = "updateAngularVelocity c (norm2 (localVelocity w v)) w"
  let ?wb = "deriveMaxAcceleration ?wa"
  let ?acc = "scale2 (1 - \<bar>c\<bar>) (localVelocity w v) - localCentreVelocity ?wa"
  from assms have w1: "w1 = updateCentreVelocity ?acc ?wb"
    by (simp add: bodyVelocities_def Let_def split: if_splits)
  obtain A where A: "?wa = w\<lparr>angularVelocity := A\<rparr>"
    using updateAngularVelocity_shape by blast
  obtain P where P: "?wb = ?wa\<lparr>params := P\<rparr>"
    using deriveMaxAcceleration_shape by blast
  obtain L where L: "updateCentreVelocity ?acc ?wb = ?wb\<lparr>localCentreVelocity := L\<rparr>"
    using updateCentreVelocity_shape by blast
  have "w1 = ?wb\<lparr>localCentreVelocity := L\<rparr>"
    using w1 L by (rule trans)
  also have "\<dots> = ?wa\<lparr>params := P, localCentreVelocity := L\<rparr>"
    using P by (rule arg_cong)
  also have "\<dots> = w\<lparr>angularVelocity := A, params := P, localCentreVelocity := L\<rparr>"
    using A by (rule arg_cong)
  finally have "w1 = w\<lparr>angularVelocity := A, params := P, localCentreVelocity := L\<rparr>" .
  then show ?thesis by blast
qed

lemma bodyVelocities_frame:
  assumes "bodyVelocities v c w = Inr w1"
  shows "walkState w1 = walkState w" "legsInCorrectPhase w1 = legsInCorrectPhase w"
    "legsCompletedFirstStep w1 = legsCompletedFirstStep w" "legSteppers w1 = legSteppers w"
    "legs w1 = legs w" "gait_of w1 = gait_of w"
  using bodyVelocities_shape[OF assms] by (auto simp: gait_of_def)

lemma startPhases_fields:
  "walkState (startPhases w) = walkState w" "gait_of (startPhases w) = gait_of w"
  "legsInCorrectPhase (startPhases w) = legsInCorrectPhase w"
  "legsCompletedFirstStep (startPhases w) = legsCompletedFirstStep w"
  "body_of (startPhases w) = body_of w"
  unfolding startPhases_def
  by (rule fold_invariant; auto)+

lemma gait_of_update [simp]:
  "gait_of (w\<lparr>walkState := a\<rparr>) = gait_of w"
  "gait_of (w\<lparr>legsInCorrectPhase := b\<rparr>) = gait_of w"
  "gait_of (w\<lparr>legsCompletedFirstStep := b\<rparr>) = gait_of w"
  "gait_of (w\<lparr>legs := d\<rparr>) = gait_of w"
  by (simp_all add: gait_of_def)

lemma walkStateTransition_gait: "gait_of (walkStateTransition sp w) = gait_of w"
  by (simp add: walkStateTransition_def startPhases_fields)

lemma walkStateTransition_walkState:
  "walkState (walkStateTransition speed w) =
    (if walkState w = STOPPED \<and> speed \<noteq> 0 then STARTING
     else if walkState w = STARTING \<and> legsInCorrectPhase w = NUM_LEGS
               \<and> legsCompletedFirstStep w = NUM_LEGS then MOVING
     else if walkState w = MOVING \<and> speed = 0 then STOPPING
     else if walkState w = STOPPING \<and> legsInCorrectPhase w = NUM_LEGS then STOPPED
     else walkState w)"
  by (simp add: walkStateTransition_def startPhases_fields)

lemma updateWalk_returns:
  assumes "normalSpeed w v < 1.01" and "phaseLength w \<noteq> 0"
  shows "\<exists>w'. updateWalk ext v c dz w = Inr w'"
proof -
  obtain w1 where w1: "bodyVelocities v c w = Inr w1"
    using bodyVelocities_returns[OF assms(1)] by blast
  let ?t = "walkStateTransition (normalSpeed w v) w1"
  have "gait_of ?t = gait_of w"
    using bodyVelocities_frame(6)[OF w1] by (simp add: walkStateTransition_gait)
  then have "phaseLength ?t \<noteq> 0" using assms(2) by (simp add: gait_of_def)
  then obtain w2 where "robotStateMachine (onGroundRatio w) ?t = Inr w2"
    using robotStateMachine_returns by blast
  then show ?thesis using w1 by (simp add: updateWalk_def Let_def)
qed

lemma startPhases_phase:
  assumes "(l, s) \<in> set legIndices"
  shows "phase (legSteppers (startPhases w) l s) = phaseOffset (legSteppers w l s) - 1"
  using assms by (auto simp: startPhases_def legIndices_def)

section \<open>The transition sequence: loops and frames\<close>





lemma steppable_setHorizontalTarget: "steppable (setHorizontalTarget loc leg) = steppable leg"
  by (simp add: steppable_def setHorizontalTarget_def Let_def)



lemma horizontalLeg_done:
  assumes "leg_completed_step (leg_poser leg)"
  shows "horizontalLeg ext K sequence loc d (p, pc) leg = ((p, pc), leg)"
  using assms by (simp add: horizontalLeg_def)

lemma horizontalLeg_idle:
  assumes "\<not> leg_completed_step (leg_poser leg)" and "\<not> (group leg = current_group pc \<or> d)"
  shows "horizontalLeg ext K sequence loc d (p, pc) leg
    = ((p, pc\<lparr>legs_completed_step := legs_completed_step pc + 1\<rparr>),
       leg\<lparr>leg_poser := (leg_poser leg)\<lparr>leg_completed_step := True\<rparr>\<rparr>)"
  using assms by (simp add: horizontalLeg_def)

lemma horizontalLeg_stop:
  assumes "\<not> leg_completed_step (leg_poser leg)" and "group leg = current_group pc \<or> d"
    and "first_sequence_execution pc"
    and "fst (snd (horizontalStep ext K sequence loc d pc leg)) < safety_factor loc"
  shows "horizontalLeg ext K sequence loc d (p, pc) leg
    = ((PROGRESS_COMPLETE,
        pc\<lparr>proximity_alert := True, legs_completed_step := legs_completed_step pc + 1\<rparr>),
       stoppedInPlace (snd (snd (horizontalStep ext K sequence loc d pc leg))))"
  using assms
  by (simp add: horizontalLeg_def Let_def split_beta resetStepToPosition_def
      addTransitionPosition_def stoppedInPlace_def PROGRESS_COMPLETE_def)

lemma horizontalLeg_go:
  assumes "\<not> leg_completed_step (leg_poser leg)" and "group leg = current_group pc \<or> d"
    and "\<not> (first_sequence_execution pc
            \<and> fst (snd (horizontalStep ext K sequence loc d pc leg)) < safety_factor loc)"
  shows "fst (horizontalLeg ext K sequence loc d (p, pc) leg)
    = (fst (horizontalStep ext K sequence loc d pc leg),
       if fst (horizontalStep ext K sequence loc d pc leg) = PROGRESS_COMPLETE
       then pc\<lparr>legs_completed_step := legs_completed_step pc + 1\<rparr> else pc)"
proof -
  have c: "(first_sequence_execution pc
            \<and> fst (snd (horizontalStep ext K sequence loc d pc leg)) < safety_factor loc) = False"
    using assms(3) by simp
  show ?thesis
    using assms(1,2)
    by (simp add: horizontalLeg_def Let_def split_beta c)
qed

lemma horizontalLeg_controller:
  "snd (fst (horizontalLeg ext K sequence loc d (p, pc) leg))
    = pc\<lparr>proximity_alert := (proximity_alert pc \<or> exceedsWorkspace ext K sequence loc d pc leg),
         legs_completed_step :=
           legs_completed_step (snd (fst (horizontalLeg ext K sequence loc d (p, pc) leg)))\<rparr>"
proof (cases "leg_completed_step (leg_poser leg)")
  case True
  then have e: "\<not> exceedsWorkspace ext K sequence loc d pc leg"
    by (simp add: exceedsWorkspace_def)
  show ?thesis
    unfolding horizontalLeg_done[OF True] by (simp add: e)
next
  case n: False
  show ?thesis
  proof (cases "group leg = current_group pc \<or> d")
    case False
    then have e: "\<not> exceedsWorkspace ext K sequence loc d pc leg"
      by (simp add: exceedsWorkspace_def)
    show ?thesis
      unfolding horizontalLeg_idle[OF n False] by (simp add: e)
  next
    case g: True
    show ?thesis
    proof (cases "first_sequence_execution pc
            \<and> fst (snd (horizontalStep ext K sequence loc d pc leg)) < safety_factor loc")
      case True
      then have e: "exceedsWorkspace ext K sequence loc d pc leg"
        using n g by (simp add: exceedsWorkspace_def)
      show ?thesis
        unfolding horizontalLeg_stop[OF n g True[THEN conjunct1] True[THEN conjunct2]]
        by (simp add: e)
    next
      case False
      then have e: "\<not> exceedsWorkspace ext K sequence loc d pc leg"
        by (simp add: exceedsWorkspace_def)
      show ?thesis
        unfolding horizontalLeg_go[OF n g False] by (simp add: e)
    qed
  qed
qed


lemma exceedsWorkspace_frame:
  "exceedsWorkspace ext K sequence loc d (pc\<lparr>proximity_alert := a, legs_completed_step := n\<rparr>) leg
    = exceedsWorkspace ext K sequence loc d pc leg"
  by (simp add: exceedsWorkspace_def horizontalStep_def cong: if_cong)

lemma exceedsWorkspace_frame_fun:
  "exceedsWorkspace ext K sequence loc d (pc\<lparr>proximity_alert := a, legs_completed_step := n\<rparr>)
    = exceedsWorkspace ext K sequence loc d pc"
  by (rule ext) (rule exceedsWorkspace_frame)

lemma horizontalLoop_controller:
  "snd (fst (forLegs (horizontalLeg ext K sequence loc d) (p, pc) ls))
      = pc\<lparr>proximity_alert :=
             (proximity_alert pc \<or> (\<exists>leg\<in>set ls. exceedsWorkspace ext K sequence loc d pc leg)),
           legs_completed_step :=
             legs_completed_step (snd (fst (forLegs (horizontalLeg ext K sequence loc d) (p, pc) ls)))\<rparr>"
proof (induction ls arbitrary: p pc)
  case Nil
  then show ?case by simp
next
  case (Cons leg rest)
  let ?h = "horizontalLeg ext K sequence loc d (p, pc) leg"
  let ?e = "exceedsWorkspace ext K sequence loc d pc leg"
  have c1: "snd (fst ?h) = pc\<lparr>proximity_alert := (proximity_alert pc \<or> ?e),
         legs_completed_step := legs_completed_step (snd (fst ?h))\<rparr>"
    by (rule horizontalLeg_controller)
  let ?f = "forLegs (horizontalLeg ext K sequence loc d) (fst (fst ?h), snd (fst ?h)) rest"
  note ih = Cons.IH[of "fst (fst ?h)" "snd (fst ?h)"]
  have f: "forLegs (horizontalLeg ext K sequence loc d) (p, pc) (leg # rest)
     = (fst ?f, snd ?h # snd ?f)"
    by (simp add: split_beta)
  have x: "(\<exists>l\<in>set rest. exceedsWorkspace ext K sequence loc d (snd (fst ?h)) l)
      = (\<exists>l\<in>set rest. exceedsWorkspace ext K sequence loc d pc l)"
    by (subst c1) (simp only: exceedsWorkspace_frame_fun)
  have a: "proximity_alert (snd (fst ?h)) = (proximity_alert pc \<or> ?e)"
    by (subst c1) simp
  have "snd (fst ?f) = (snd (fst ?h))\<lparr>proximity_alert :=
             (proximity_alert pc \<or> ?e \<or> (\<exists>l\<in>set rest. exceedsWorkspace ext K sequence loc d pc l)),
           legs_completed_step := legs_completed_step (snd (fst ?f))\<rparr>"
    using ih unfolding x a by (simp add: disj_assoc)
  then have "snd (fst ?f) = pc\<lparr>proximity_alert :=
             (proximity_alert pc \<or> ?e \<or> (\<exists>l\<in>set rest. exceedsWorkspace ext K sequence loc d pc l)),
           legs_completed_step := legs_completed_step (snd (fst ?f))\<rparr>"
    by (subst (asm) c1) simp
  then show ?case
    unfolding f by simp
qed



lemma horizontalSteps_controller:
  "snd (horizontalSteps ext K sequence loc d p pc)
    = pc\<lparr>model := (model pc)\<lparr>leg_container :=
              leg_container (model (snd (horizontalSteps ext K sequence loc d p pc)))\<rparr>,
         proximity_alert :=
           (proximity_alert pc
             \<or> (\<exists>leg\<in>set (leg_container (model pc)). exceedsWorkspace ext K sequence loc d pc leg)),
         legs_completed_step :=
           legs_completed_step (snd (horizontalSteps ext K sequence loc d p pc))\<rparr>"
proof -
  let ?f = "forLegs (horizontalLeg ext K sequence loc d) (p, pc) (leg_container (model pc))"
  have e: "snd (horizontalSteps ext K sequence loc d p pc) = setLegs (snd ?f) (snd (fst ?f))"
    by (simp add: horizontalSteps_def split_beta)
  show ?thesis
    unfolding e
    by (subst (1 2) horizontalLoop_controller) (simp add: setLegs_def)
qed

lemma setHorizontalTargets_frame:
  "first_sequence_execution (setHorizontalTargets loc pc) = first_sequence_execution pc"
  "transition_step_count (setHorizontalTargets loc pc) = transition_step_count pc"
  "current_group (setHorizontalTargets loc pc) = current_group pc"
  "proximity_alert (setHorizontalTargets loc pc) = proximity_alert pc"
  "legs_bearing_load (model (setHorizontalTargets loc pc)) = legs_bearing_load (model pc)"
  "leg_count (model (setHorizontalTargets loc pc)) = leg_count (model pc)"
  "(\<forall>leg\<in>set (leg_container (model (setHorizontalTargets loc pc))). steppable leg)
     = (\<forall>leg\<in>set (leg_container (model pc)). steppable leg)"
  by (simp_all add: setHorizontalTargets_def setLegs_def steppable_setHorizontalTarget)














lemma sequenceSetup_exclusive:
  "execute_vertical_transition (sequenceSetup K sequence pc)
    = (\<not> execute_horizontal_transition (sequenceSetup K sequence pc))"
  by (cases sequence) (simp_all add: sequenceSetup_def Let_def)






lemma horizontalCompletion_alert:
  assumes "proximity_alert pc"
  shows "proximity_alert (snd (horizontalCompletion loc d c pc))
    \<or> (\<not> horizontal_transition_complete (snd (horizontalCompletion loc d c pc))
        \<and> transition_step (snd (horizontalCompletion loc d c pc)) = next_transition_step loc)"
  using assms by (simp add: horizontalCompletion_def Let_def)

lemma horizontalTransition_controller:
  "controller (horizontalTransition ext K sequence loc run)
    = snd (horizontalCompletion loc
        (\<not> legs_bearing_load (model (setHorizontalTargets loc (controller run))))
        (sequence_complete run)
        (snd (horizontalSteps ext K sequence loc
               (\<not> legs_bearing_load (model (setHorizontalTargets loc (controller run))))
               (progress run) (setHorizontalTargets loc (controller run)))))"
  by (simp add: horizontalTransition_def Let_def split_beta)

lemma horizontalSteps_alert:
  "proximity_alert (snd (horizontalSteps ext K sequence loc d p pc))
    = (proximity_alert pc
        \<or> (\<exists>leg\<in>set (leg_container (model pc)). exceedsWorkspace ext K sequence loc d pc leg))"
  by (subst horizontalSteps_controller) simp

lemma horizontalTransition_alert:
  assumes "proximity_alert (controller run)
    \<or> (\<exists>leg\<in>set (leg_container (model (setHorizontalTargets loc (controller run)))).
     exceedsWorkspace ext K sequence loc
       (\<not> legs_bearing_load (model (setHorizontalTargets loc (controller run))))
       (setHorizontalTargets loc (controller run)) leg)"
  shows "proximity_alert (controller (horizontalTransition ext K sequence loc run))
    \<or> (\<not> horizontal_transition_complete (controller (horizontalTransition ext K sequence loc run))
        \<and> transition_step (controller (horizontalTransition ext K sequence loc run))
            = next_transition_step loc)"
  unfolding horizontalTransition_controller
  by (rule horizontalCompletion_alert)
     (use assms in \<open>simp add: horizontalSteps_alert setHorizontalTargets_frame\<close>)

lemma resetSequence_alert:
  "proximity_alert (resetSequence sequence pc) = proximity_alert pc"
  by (simp add: resetSequence_def setLegs_def)

lemma finishSequence_frame:
  "proximity_alert (snd (finishSequence K t run)) = proximity_alert (controller run)"
  "transition_step (snd (finishSequence K t run)) = transition_step (controller run)"
  "horizontal_transition_complete (snd (finishSequence K t run))
     \<Longrightarrow> horizontal_transition_complete (controller run)"
  by (simp_all add: finishSequence_def Let_def split: if_splits)

lemma sequenceRun_horizontal:
  assumes "execute_horizontal_transition (sequenceSetup K sequence (resetSequence sequence pc))"
  shows "sequenceRun ext K sequence pc
    = horizontalTransition ext K sequence (sequenceSetup K sequence (resetSequence sequence pc))
        \<lparr>progress = 0, normalised_progress = 0, sequence_complete = False,
         controller = resetSequence sequence pc\<rparr>"
  using assms by (simp add: sequenceRun_def Let_def sequenceSetup_exclusive)

lemma horizontalLeg_alerted:
  assumes "exceedsWorkspace ext K sequence loc d pc leg"
  shows "horizontalLeg ext K sequence loc d (p, pc) leg
      = ((PROGRESS_COMPLETE, alerted pc),
         stoppedInPlace (snd (snd (horizontalStep ext K sequence loc d pc leg))))"
  using assms unfolding exceedsWorkspace_def alerted_def
  by (intro horizontalLeg_stop) simp_all

section \<open>Stance control nodes\<close>

text \<open>
  Claim C3. For every stance origin \<open>P\<close>, stride vector \<open>s\<close>, default tip position \<open>D\<close> and
  stance depth \<open>h\<close> (step depth times maximum body height), \<open>generateStanceControlNodes\<close>
  leaves node 0 equal to \<open>P\<close>, node 4 horizontally equal to \<open>P - s\<close> and vertically equal to
  the height of \<open>D\<close>, nodes 1, 2, 3 horizontally equal to node 4 plus 3/4, 1/2, 1/4 of
  (node 0 - node 4), and vertically node 2 at the height of \<open>P\<close> less \<open>h\<close>, node 1 halfway
  between nodes 0 and 2, node 3 halfway between nodes 4 and 2.
\<close>

theorem generateStanceControlNodes_nodes:
  fixes w :: Walker and s :: Vector3d and ls :: LegStepper
  defines "n \<equiv> stanceControlNodes (generateStanceControlNodes w s ls)"
    and "P \<equiv> stanceOriginTipPosition ls"
    and "D \<equiv> defaultTipPosition ls"
    and "h \<equiv> stepDepth w * maximumBodyHeight w"
  shows "n 0 = P
    \<and> horizontal (n 4) = horizontal (P - s) \<and> vz (n 4) = vz D
    \<and> horizontal (n 1) = horizontal (n 4 + scale3 (3/4) (n 0 - n 4))
    \<and> horizontal (n 2) = horizontal (n 4 + scale3 (1/2) (n 0 - n 4))
    \<and> horizontal (n 3) = horizontal (n 4 + scale3 (1/4) (n 0 - n 4))
    \<and> vz (n 2) = vz P - h
    \<and> vz (n 1) = (vz (n 0) + vz (n 2)) / 2
    \<and> vz (n 3) = (vz (n 4) + vz (n 2)) / 2"
  unfolding n_def P_def D_def h_def
  by (simp add: generateStanceControlNodes_def Let_def set_z_def horizontal_def scale3_def
      plus_Vector3d_def minus_Vector3d_def)
section \<open>State transitions of the walk cycle\<close>

lemma walkStateTransition_start:
  assumes "walkState w = STOPPED" and "speed \<noteq> 0"
  shows "walkStateTransition speed w = startPhases (w\<lparr>walkState := STARTING\<rparr>)"
  using assms by (simp add: walkStateTransition_def)

lemma walkStateTransition_moving:
  assumes "walkState w = STARTING" and "legsInCorrectPhase w = NUM_LEGS"
    and "legsCompletedFirstStep w = NUM_LEGS"
  shows "walkStateTransition speed w
    = w\<lparr>legsInCorrectPhase := 0, legsCompletedFirstStep := 0, walkState := MOVING\<rparr>"
  using assms by (simp add: walkStateTransition_def)

lemma walkStateTransition_stopping:
  assumes "walkState w = MOVING" and "speed = 0"
  shows "walkStateTransition speed w = w\<lparr>walkState := STOPPING\<rparr>"
  using assms by (simp add: walkStateTransition_def)

lemma walkStateTransition_stopped:
  assumes "walkState w = STOPPING" and "legsInCorrectPhase w = NUM_LEGS"
  shows "walkStateTransition speed w = w\<lparr>legsInCorrectPhase := 0, walkState := STOPPED\<rparr>"
  using assms by (simp add: walkStateTransition_def)

lemma walkStateTransition_other:
  assumes "\<not> (walkState w = STOPPED \<and> speed \<noteq> 0)"
    and "\<not> (walkState w = STARTING \<and> legsInCorrectPhase w = NUM_LEGS
                 \<and> legsCompletedFirstStep w = NUM_LEGS)"
    and "\<not> (walkState w = MOVING \<and> speed = 0)"
    and "\<not> (walkState w = STOPPING \<and> legsInCorrectPhase w = NUM_LEGS)"
  shows "walkStateTransition speed w = w"
proof -
  have c3: "\<not> (walkState w = MOVING \<and> \<not> speed \<noteq> 0)" using assms(3) by simp
  show ?thesis
    unfolding walkStateTransition_def
    by (simp only: assms(1,2,4) c3 if_False)
qed

lemma norm2_along_x: "norm2 (Vector2d a 0) = \<bar>a\<bar>"
  by (simp add: norm2_def)

lemma stoppedWalker_localVelocity:
  "localVelocity stoppedWalker (Vector2d (1/25) 0) = Vector2d (1/2) 0"
  by (simp add: localVelocity_def stoppedWalker_def onGroundRatio_def scale2_def div2_def)

lemma stoppedWalker_speed: "normalSpeed stoppedWalker (Vector2d (1/25) 0) = 1/2"
  by (simp add: normalSpeed_def stoppedWalker_localVelocity norm2_along_x)

text \<open>
  Claim C1. In one tick of \<open>updateWalk\<close> that returns, the walk state after the tick is
  the walk state the transition block leaves, and the rest of the tick does not write it.
  The block is one \<open>if\<close>/\<open>else if\<close> chain, so at most one transition fires:
  stopped to starting when the speed of the scaled command is not zero, every leg's phase
  then being its phase offset less one; starting to moving when both counters equal the leg
  count (6), both counters then being zero; moving to stopping when the speed is zero;
  stopping to stopped when the count of legs in the correct phase equals the leg count, the
  counter then being zero; in every other case the block changes nothing and the walk state
  after the tick is the one before it.
\<close>

theorem updateWalk_walk_state_transitions:
  assumes "updateWalk ext v c dz w = Inr w'"
  defines "speed \<equiv> normalSpeed w v"
  defines "t \<equiv> walkStateTransition speed w"
  shows "walkState w' = walkState t
    \<and> (walkState w = STOPPED \<and> speed \<noteq> 0 \<longrightarrow>
          walkState t = STARTING
          \<and> (\<forall>i \<in> set legIndices. phase (legSteppers t (fst i) (snd i))
                = phaseOffset (legSteppers w (fst i) (snd i)) - 1))
    \<and> (walkState w = STARTING \<and> legsInCorrectPhase w = NUM_LEGS
          \<and> legsCompletedFirstStep w = NUM_LEGS \<longrightarrow>
          walkState t = MOVING \<and> legsInCorrectPhase t = 0 \<and> legsCompletedFirstStep t = 0)
    \<and> (walkState w = MOVING \<and> speed = 0 \<longrightarrow> walkState t = STOPPING)
    \<and> (walkState w = STOPPING \<and> legsInCorrectPhase w = NUM_LEGS \<longrightarrow>
          walkState t = STOPPED \<and> legsInCorrectPhase t = 0)
    \<and> (\<not> (walkState w = STOPPED \<and> speed \<noteq> 0)
          \<and> \<not> (walkState w = STARTING \<and> legsInCorrectPhase w = NUM_LEGS
                 \<and> legsCompletedFirstStep w = NUM_LEGS)
          \<and> \<not> (walkState w = MOVING \<and> speed = 0)
          \<and> \<not> (walkState w = STOPPING \<and> legsInCorrectPhase w = NUM_LEGS) \<longrightarrow>
          t = w \<and> walkState w' = walkState w)
    \<and> NUM_LEGS = 6"
proof -
  obtain w1 w2 where w1: "bodyVelocities v c w = Inr w1"
    and w2: "robotStateMachine (onGroundRatio w) (walkStateTransition speed w1) = Inr w2"
    and w': "w' = updateBodyPose ext
           ((updateTipPositions ext dz (legStateMachine w2))
              \<lparr>legs := clampToLimits ext (legs (updateTipPositions ext dz (legStateMachine w2)))\<rparr>)"
    using updateWalk_stages[OF assms(1)] unfolding speed_def by blast
  have "body_of w' = body_of (walkStateTransition speed w1)"
    using after_transition_body[OF w2 w'] .
  then have "walkState w' = walkState (walkStateTransition speed w1)"
    by (simp add: body_of_def)
  also have "\<dots> = walkState t"
    unfolding t_def walkStateTransition_walkState
    by (simp only: bodyVelocities_frame[OF w1])
  finally have tick: "walkState w' = walkState t" .
  have start: "walkState w = STOPPED \<and> speed \<noteq> 0 \<longrightarrow>
          walkState t = STARTING
          \<and> (\<forall>i \<in> set legIndices. phase (legSteppers t (fst i) (snd i))
                = phaseOffset (legSteppers w (fst i) (snd i)) - 1)"
  proof
    assume a: "walkState w = STOPPED \<and> speed \<noteq> 0"
    then have t: "t = startPhases (w\<lparr>walkState := STARTING\<rparr>)"
      unfolding t_def by (simp add: walkStateTransition_start)
    have "\<forall>i \<in> set legIndices. phase (legSteppers t (fst i) (snd i))
                = phaseOffset (legSteppers w (fst i) (snd i)) - 1"
    proof
      fix i assume "i \<in> set legIndices"
      then have "(fst i, snd i) \<in> set legIndices" by simp
      from startPhases_phase[OF this, of "w\<lparr>walkState := STARTING\<rparr>"]
      show "phase (legSteppers t (fst i) (snd i)) = phaseOffset (legSteppers w (fst i) (snd i)) - 1"
        by (simp add: t)
    qed
    moreover have "walkState t = STARTING"
      unfolding t by (simp add: startPhases_fields)
    ultimately show "walkState t = STARTING
          \<and> (\<forall>i \<in> set legIndices. phase (legSteppers t (fst i) (snd i))
                = phaseOffset (legSteppers w (fst i) (snd i)) - 1)"
      by blast
  qed
  have moving: "walkState w = STARTING \<and> legsInCorrectPhase w = NUM_LEGS
          \<and> legsCompletedFirstStep w = NUM_LEGS \<longrightarrow>
          walkState t = MOVING \<and> legsInCorrectPhase t = 0 \<and> legsCompletedFirstStep t = 0"
    unfolding t_def by (simp add: walkStateTransition_moving)
  have stopping: "walkState w = MOVING \<and> speed = 0 \<longrightarrow> walkState t = STOPPING"
    unfolding t_def by (simp add: walkStateTransition_stopping)
  have stopped: "walkState w = STOPPING \<and> legsInCorrectPhase w = NUM_LEGS \<longrightarrow>
          walkState t = STOPPED \<and> legsInCorrectPhase t = 0"
    unfolding t_def by (simp add: walkStateTransition_stopped)
  have other: "\<not> (walkState w = STOPPED \<and> speed \<noteq> 0)
          \<and> \<not> (walkState w = STARTING \<and> legsInCorrectPhase w = NUM_LEGS
                 \<and> legsCompletedFirstStep w = NUM_LEGS)
          \<and> \<not> (walkState w = MOVING \<and> speed = 0)
          \<and> \<not> (walkState w = STOPPING \<and> legsInCorrectPhase w = NUM_LEGS) \<longrightarrow>
          t = w \<and> walkState w' = walkState w"
  proof
    assume a: "\<not> (walkState w = STOPPED \<and> speed \<noteq> 0)
          \<and> \<not> (walkState w = STARTING \<and> legsInCorrectPhase w = NUM_LEGS
                 \<and> legsCompletedFirstStep w = NUM_LEGS)
          \<and> \<not> (walkState w = MOVING \<and> speed = 0)
          \<and> \<not> (walkState w = STOPPING \<and> legsInCorrectPhase w = NUM_LEGS)"
    have "t = w" unfolding t_def
      by (rule walkStateTransition_other) (use a in blast)+
    then show "t = w \<and> walkState w' = walkState w" using tick by simp
  qed
  have n: "NUM_LEGS = 6" by (simp add: NUM_LEGS_def)
  show ?thesis
    using tick start moving stopping stopped other n by blast
qed

text \<open>
  A stopped walker that is commanded forward is starting after the tick.
\<close>

theorem updateWalk_walk_state_transitions_witness:
  "\<exists>w'. updateWalk idleCollaborators (Vector2d (1/25) 0) 0 (\<lambda>l s. 0) stoppedWalker = Inr w'
      \<and> walkState w' = STARTING"
proof -
  have "normalSpeed stoppedWalker (Vector2d (1/25) 0) < 1.01"
    by (simp add: stoppedWalker_speed)
  moreover have "phaseLength stoppedWalker \<noteq> 0" by (simp add: stoppedWalker_def)
  ultimately obtain w'
    where w': "updateWalk idleCollaborators (Vector2d (1/25) 0) 0 (\<lambda>l s. 0) stoppedWalker = Inr w'"
    using updateWalk_returns by blast
  have s: "walkState stoppedWalker = STOPPED" by (simp add: stoppedWalker_def)
  have n: "normalSpeed stoppedWalker (Vector2d (1/25) 0) \<noteq> 0"
    by (simp add: stoppedWalker_speed)
  have "walkState w' = STARTING"
    using updateWalk_walk_state_transitions[OF w'] s n by simp
  then show ?thesis using w' by blast
qed
section \<open>Body velocities\<close>

lemma norm2_nonneg: "0 \<le> norm2 a"
  by (simp add: norm2_def)

lemma norm2_scale2: "norm2 (scale2 k a) = \<bar>k\<bar> * norm2 a"
proof -
  have "(k * ux a)\<^sup>2 + (k * uy a)\<^sup>2 = k\<^sup>2 * ((ux a)\<^sup>2 + (uy a)\<^sup>2)"
    by (simp add: power_mult_distrib distrib_left)
  then show ?thesis
    by (simp add: norm2_def scale2_def real_sqrt_mult)
qed

lemma Vector2d_add_diff: "(a + b) - a = (b::Vector2d)"
  by (cases a; cases b) (simp add: plus_Vector2d_def minus_Vector2d_def)

lemma Vector2d_diff_self: "norm2 (a - a) = 0"
  by (simp add: minus_Vector2d_def norm2_def)

lemma slew_limit:
  fixes m d :: real
  assumes "0 \<le> m" and "0 < d"
  shows "0 \<le> min 1 (m / d)" and "d * min 1 (m / d) \<le> m"
proof -
  show "0 \<le> min 1 (m / d)" using assms by simp
  have "min 1 (m / d) \<le> m / d" by simp
  moreover have "0 \<le> d" using assms(2) by simp
  ultimately have "d * min 1 (m / d) \<le> d * (m / d)"
    by (rule mult_left_mono)
  then show "d * min 1 (m / d) \<le> m" using assms(2) by simp
qed

lemma updateAngularVelocity_limit:
  assumes "0 \<le> maxCurvatureSpeed (params w) * timeDelta w"
  shows "\<bar>angularVelocity (updateAngularVelocity c sp w) - angularVelocity w\<bar>
           \<le> maxCurvatureSpeed (params w) * timeDelta w"
proof -
  let ?m = "maxCurvatureSpeed (params w) * timeDelta w"
  let ?dif = "c * sp / stanceRadius w - angularVelocity w"
  show ?thesis
  proof (cases "\<bar>?dif\<bar> > 0")
    case True
    have "angularVelocity (updateAngularVelocity c sp w) - angularVelocity w
            = ?dif * min 1 (?m / \<bar>?dif\<bar>)"
      using True by (simp add: updateAngularVelocity_def Let_def)
    then have "\<bar>angularVelocity (updateAngularVelocity c sp w) - angularVelocity w\<bar>
            = \<bar>?dif\<bar> * min 1 (?m / \<bar>?dif\<bar>)"
      using slew_limit(1)[OF assms True] by (simp only: abs_mult abs_of_nonneg)
    then show ?thesis using slew_limit(2)[OF assms True] by simp
  next
    case False
    then have "angularVelocity (updateAngularVelocity c sp w) = angularVelocity w"
      by (simp add: updateAngularVelocity_def Let_def)
    then show ?thesis using assms by simp
  qed
qed

lemma updateCentreVelocity_limit:
  assumes "0 \<le> maxAcceleration (params w) * timeDelta w"
  shows "norm2 (localCentreVelocity (updateCentreVelocity a w) - localCentreVelocity w)
           \<le> maxAcceleration (params w) * timeDelta w"
proof -
  let ?m = "maxAcceleration (params w) * timeDelta w"
  show ?thesis
  proof (cases "norm2 a > 0")
    case True
    have "localCentreVelocity (updateCentreVelocity a w) - localCentreVelocity w
            = scale2 (min 1 (?m / norm2 a)) a"
      using True by (simp add: updateCentreVelocity_def Vector2d_add_diff)
    then have "norm2 (localCentreVelocity (updateCentreVelocity a w) - localCentreVelocity w)
            = min 1 (?m / norm2 a) * norm2 a"
      using slew_limit(1)[OF assms True] by (simp only: norm2_scale2 abs_of_nonneg)
    then show ?thesis using slew_limit(2)[OF assms True] by (simp add: mult.commute)
  next
    case False
    then have "localCentreVelocity (updateCentreVelocity a w) = localCentreVelocity w"
      by (simp add: updateCentreVelocity_def)
    then show ?thesis using assms by (simp add: Vector2d_diff_self)
  qed
qed

lemma deriveMaxAcceleration_nonneg:
  assumes "saneParameters w"
  shows "0 \<le> maxAcceleration (params (deriveMaxAcceleration w)) * timeDelta w"
proof -
  have t: "0 \<le> timeDelta w" using assms by (simp add: saneParameters_def)
  have "0 \<le> maxAcceleration (params (deriveMaxAcceleration w))"
  proof (cases "maxAcceleration (params w) = - 1")
    case True
    then have r: "0 \<le> minFootprintRadius w" using assms by (simp add: saneParameters_def)
    have "0 \<le> sqr ((real_of_int (phaseLength w) - real_of_int (swingEnd w - swingStart w) * 0.5)
                       * timeDelta w)"
      by (simp add: sqr_def)
    then show ?thesis using True r by (simp add: deriveMaxAcceleration_def)
  next
    case False
    then show ?thesis using assms by (simp add: deriveMaxAcceleration_def saneParameters_def)
  qed
  then show ?thesis using t by simp
qed

lemma localVelocity_scaled:
  "walkState w \<noteq> STOPPING \<Longrightarrow>
     localVelocity w v
       = scale2 (2 * minFootprintRadius w * stepFrequency w / onGroundRatio w) v"
  by (simp add: localVelocity_def scale2_def div2_def)

lemma localVelocity_stopping:
  "walkState w = STOPPING \<Longrightarrow> localVelocity w v = Vector2d 0 0"
  by (simp add: localVelocity_def)

lemma onGroundRatio_positive:
  assumes "saneParameters w"
  shows "0 < onGroundRatio w"
  using assms by (simp add: saneParameters_def onGroundRatio_def)

lemma bodyVelocities_values:
  assumes "bodyVelocities v c w = Inr w1"
  defines "wa \<equiv> updateAngularVelocity c (norm2 (localVelocity w v)) w"
  shows "angularVelocity w1 = angularVelocity wa"
    and "params w1 = params (deriveMaxAcceleration w)"
    and "localCentreVelocity w1 = localCentreVelocity
          (updateCentreVelocity (scale2 (1 - \<bar>c\<bar>) (localVelocity w v) - localCentreVelocity w)
             (deriveMaxAcceleration wa))"
proof -
  let ?wb = "deriveMaxAcceleration wa"
  let ?acc = "scale2 (1 - \<bar>c\<bar>) (localVelocity w v) - localCentreVelocity wa"
  from assms(1) have w1: "w1 = updateCentreVelocity ?acc ?wb"
    by (simp add: bodyVelocities_def wa_def Let_def split: if_splits)
  obtain A where A: "wa = w\<lparr>angularVelocity := A\<rparr>"
    unfolding wa_def using updateAngularVelocity_shape by blast
  obtain P where P: "?wb = wa\<lparr>params := P\<rparr>"
    using deriveMaxAcceleration_shape by blast
  obtain L where L: "updateCentreVelocity ?acc ?wb = ?wb\<lparr>localCentreVelocity := L\<rparr>"
    using updateCentreVelocity_shape by blast
  have lc: "localCentreVelocity wa = localCentreVelocity w" by (simp add: A)
  show "angularVelocity w1 = angularVelocity wa"
    unfolding w1 by (subst L, subst P) simp
  have "params w1 = params ?wb" unfolding w1 by (subst L) simp
  also have "\<dots> = params (deriveMaxAcceleration w)"
    by (simp add: deriveMaxAcceleration_def A)
  finally show "params w1 = params (deriveMaxAcceleration w)" .
  show "localCentreVelocity w1 = localCentreVelocity
          (updateCentreVelocity (scale2 (1 - \<bar>c\<bar>) (localVelocity w v) - localCentreVelocity w)
             (deriveMaxAcceleration wa))"
    unfolding w1 lc ..
qed

lemma walkStateTransition_velocities:
  "angularVelocity (walkStateTransition sp w) = angularVelocity w"
  "localCentreVelocity (walkStateTransition sp w) = localCentreVelocity w"
  "params (walkStateTransition sp w) = params w"
  using startPhases_fields(5)[of "w\<lparr>walkState := STARTING\<rparr>"]
  by (simp_all add: walkStateTransition_def body_of_def)

lemma bodyVelocities_limits:
  assumes "bodyVelocities v c w = Inr w1" and "saneParameters w"
  shows "norm2 (localCentreVelocity w1 - localCentreVelocity w)
           \<le> maxAcceleration (params w1) * timeDelta w"
    and "\<bar>angularVelocity w1 - angularVelocity w\<bar>
           \<le> maxCurvatureSpeed (params w) * timeDelta w"
proof -
  let ?wa = "updateAngularVelocity c (norm2 (localVelocity w v)) w"
  let ?wb = "deriveMaxAcceleration ?wa"
  let ?acc = "scale2 (1 - \<bar>c\<bar>) (localVelocity w v) - localCentreVelocity w"
  obtain A where A: "?wa = w\<lparr>angularVelocity := A\<rparr>"
    using updateAngularVelocity_shape by blast
  obtain P where P: "?wb = ?wa\<lparr>params := P\<rparr>"
    using deriveMaxAcceleration_shape by blast
  have pb: "params ?wb = params (deriveMaxAcceleration w)"
    by (simp add: deriveMaxAcceleration_def A)
  have tb: "timeDelta ?wb = timeDelta w" by (subst P, subst A) simp
  have lb: "localCentreVelocity ?wb = localCentreVelocity w" by (subst P, subst A) simp
  have "0 \<le> maxAcceleration (params ?wb) * timeDelta ?wb"
    unfolding pb tb using deriveMaxAcceleration_nonneg[OF assms(2)] .
  from updateCentreVelocity_limit[OF this, of ?acc]
  have "norm2 (localCentreVelocity (updateCentreVelocity ?acc ?wb) - localCentreVelocity w)
           \<le> maxAcceleration (params (deriveMaxAcceleration w)) * timeDelta w"
    unfolding pb tb lb .
  then show "norm2 (localCentreVelocity w1 - localCentreVelocity w)
           \<le> maxAcceleration (params w1) * timeDelta w"
    using bodyVelocities_values(2,3)[OF assms(1)] by simp
  have "0 \<le> maxCurvatureSpeed (params w) * timeDelta w"
    using assms(2) by (simp add: saneParameters_def)
  from updateAngularVelocity_limit[OF this]
  show "\<bar>angularVelocity w1 - angularVelocity w\<bar>
           \<le> maxCurvatureSpeed (params w) * timeDelta w"
    using bodyVelocities_values(1)[OF assms(1)] by simp
qed

text \<open>
  Claim C5. In one tick of \<open>updateWalk\<close> that returns, with sane parameters (a positive
  time step, a swing window shorter than the positive phase length, a stance radius that is
  not zero, limits that are not negative): outside the stopping state the commanded velocity
  is scaled by 2 * workspace radius * step frequency / on-ground ratio, in the stopping
  state it is taken as zero; the change of the linear body velocity in the tick has norm at
  most the maximum acceleration in force after the tick (the parameter, or the value derived
  for the parameter -1) times the time step; and the change of the angular velocity has
  magnitude at most the maximum curvature speed times the time step.
\<close>

theorem updateWalk_velocity_limits:
  assumes "updateWalk ext v c dz w = Inr w'" and "saneParameters w"
  shows "(walkState w \<noteq> STOPPING \<longrightarrow>
            localVelocity w v
              = scale2 (2 * minFootprintRadius w * stepFrequency w / onGroundRatio w) v)
    \<and> (walkState w = STOPPING \<longrightarrow> localVelocity w v = Vector2d 0 0)
    \<and> norm2 (localCentreVelocity w' - localCentreVelocity w)
          \<le> maxAcceleration (params w') * timeDelta w
    \<and> \<bar>angularVelocity w' - angularVelocity w\<bar>
          \<le> maxCurvatureSpeed (params w) * timeDelta w"
proof -
  obtain w1 w2 where w1: "bodyVelocities v c w = Inr w1"
    and w2: "robotStateMachine (onGroundRatio w) (walkStateTransition (normalSpeed w v) w1) = Inr w2"
    and w': "w' = updateBodyPose ext
           ((updateTipPositions ext dz (legStateMachine w2))
              \<lparr>legs := clampToLimits ext (legs (updateTipPositions ext dz (legStateMachine w2)))\<rparr>)"
    using updateWalk_stages[OF assms(1)] by blast
  have "body_of w' = body_of (walkStateTransition (normalSpeed w v) w1)"
    using after_transition_body[OF w2 w'] .
  then have same: "angularVelocity w' = angularVelocity w1"
      "localCentreVelocity w' = localCentreVelocity w1" "params w' = params w1"
    by (simp_all add: body_of_def walkStateTransition_velocities)
  show ?thesis
    using bodyVelocities_limits[OF w1 assms(2)]
    by (simp add: same localVelocity_scaled localVelocity_stopping)
qed

lemma stoppedWalker_sane: "saneParameters stoppedWalker"
  by (simp add: saneParameters_def stoppedWalker_def)

text \<open>
  A stopped walker commanded forward: the command 1/25 is scaled to 1/2, and the velocities
  move from zero by no more than the limits.
\<close>

theorem updateWalk_velocity_limits_witness:
  "\<exists>w'. updateWalk idleCollaborators (Vector2d (1/25) 0) 0 (\<lambda>l s. 0) stoppedWalker = Inr w'
      \<and> localVelocity stoppedWalker (Vector2d (1/25) 0) = Vector2d (1/2) 0
      \<and> norm2 (localCentreVelocity w' - Vector2d 0 0) \<le> maxAcceleration (params w') * (1/50)
      \<and> \<bar>angularVelocity w'\<bar> \<le> 1/50"
proof -
  have "normalSpeed stoppedWalker (Vector2d (1/25) 0) < 1.01"
    by (simp add: stoppedWalker_speed)
  moreover have "phaseLength stoppedWalker \<noteq> 0" by (simp add: stoppedWalker_def)
  ultimately obtain w'
    where w': "updateWalk idleCollaborators (Vector2d (1/25) 0) 0 (\<lambda>l s. 0) stoppedWalker = Inr w'"
    using updateWalk_returns by blast
  have f: "localCentreVelocity stoppedWalker = Vector2d 0 0" "angularVelocity stoppedWalker = 0"
    "timeDelta stoppedWalker = 1/50" "maxCurvatureSpeed (params stoppedWalker) = 1"
    by (simp_all add: stoppedWalker_def)
  show ?thesis
    using updateWalk_velocity_limits[OF w' stoppedWalker_sane] w'
    by (simp add: f stoppedWalker_localVelocity)
qed

section \<open>The step state of each leg\<close>

lemma fold_untouched:
  assumes "(l, s) \<notin> set is"
    and "\<And>j x. j \<noteq> (l, s) \<Longrightarrow>
           legSteppers (f j x) l s = legSteppers x l s \<and> legs (f j x) l s = legs x l s"
  shows "legSteppers (fold f is w) l s = legSteppers w l s \<and> legs (fold f is w) l s = legs w l s"
  using assms(1)
proof (induction "is" arbitrary: w)
  case Nil
  then show ?case by simp
next
  case (Cons j rest)
  then have "j \<noteq> (l, s)" and "(l, s) \<notin> set rest" by auto
  then show ?case using Cons.IH[of "f j w"] assms(2)[of j w] by simp
qed

lemma fold_at_leg:
  assumes "distinct is" and "(l, s) \<in> set is" and "P w"
    and "\<And>j x. P x \<Longrightarrow> P (f j x)"
    and "\<And>j x. j \<noteq> (l, s) \<Longrightarrow>
           legSteppers (f j x) l s = legSteppers x l s \<and> legs (f j x) l s = legs x l s"
    and "\<And>x. P x \<Longrightarrow> legSteppers (f (l, s) x) l s = g (legSteppers x l s) (legs x l s)"
  shows "legSteppers (fold f is w) l s = g (legSteppers w l s) (legs w l s)"
  using assms(1,2,3)
proof (induction "is" arbitrary: w)
  case Nil
  then show ?case by simp
next
  case (Cons j rest)
  show ?case
  proof (cases "j = (l, s)")
    case True
    then have "(l, s) \<notin> set rest" using Cons.prems(1) by simp
    from fold_untouched[where f=f and w="f j w", OF this assms(5)]
    have "legSteppers (fold f rest (f j w)) l s = legSteppers (f j w) l s" by simp
    then show ?thesis using assms(6)[OF Cons.prems(3)] True by simp
  next
    case False
    then have "(l, s) \<in> set rest" using Cons.prems(2) by auto
    moreover have "distinct rest" using Cons.prems(1) by simp
    moreover have "P (f j w)" using assms(4)[OF Cons.prems(3)] .
    ultimately have "legSteppers (fold f rest (f j w)) l s
        = g (legSteppers (f j w) l s) (legs (f j w) l s)"
      using Cons.IH by blast
    then show ?thesis using assms(5)[OF False, of w] by simp
  qed
qed

lemma legSteppers_setLegStepper_other:
  assumes "(a, b) \<noteq> (l, s)"
  shows "legSteppers (setLegStepper a b ls w) l s = legSteppers w l s"
proof (cases "l = a")
  case True
  then have "s \<noteq> b" using assms by simp
  then show ?thesis by (simp add: setLegStepper_def)
next
  case False
  then show ?thesis by (simp add: setLegStepper_def)
qed

lemma legs_setLeg_other:
  assumes "(a, b) \<noteq> (l, s)"
  shows "legs (setLeg a b leg w) l s = legs w l s"
proof (cases "l = a")
  case True
  then have "s \<noteq> b" using assms by simp
  then show ?thesis by (simp add: setLeg_def)
next
  case False
  then show ?thesis by (simp add: setLeg_def)
qed

lemma distinct_legIndices: "distinct legIndices"
  by (simp add: legIndices_def)

lemma selectStepState_gait:
  assumes "gait_of x = gait_of w"
  shows "selectStepState x ls = selectStepState w ls"
  using assms by (simp add: selectStepState_def gait_of_def)

lemma legStateMachine_leg:
  assumes "(l, s) \<in> set legIndices"
  shows "legSteppers (legStateMachine w) l s = selectStepState w (legSteppers w l s)"
  unfolding legStateMachine_def
proof (rule fold_at_leg[where P="\<lambda>x. gait_of x = gait_of w"
      and g="\<lambda>ls leg. selectStepState w ls", OF distinct_legIndices assms])
  show "gait_of w = gait_of w" ..
next
  fix j x assume "gait_of x = gait_of w"
  then show "gait_of (legStateMachineLeg j x) = gait_of w"
    by (cases j) (simp add: legStateMachineLeg_def)
next
  fix j :: "nat \<times> nat" and x :: WalkController assume j: "j \<noteq> (l, s)"
  obtain a b where ab: "j = (a, b)" by (cases j)
  then have "(a, b) \<noteq> (l, s)" using j by simp
  then have "legSteppers (legStateMachineLeg j x) l s = legSteppers x l s"
    unfolding ab legStateMachineLeg_def prod.case
    by (rule legSteppers_setLegStepper_other)
  moreover have "legs (legStateMachineLeg j x) l s = legs x l s"
    unfolding ab legStateMachineLeg_def prod.case
    by (simp only: setLegStepper_fields)
  ultimately show "legSteppers (legStateMachineLeg j x) l s = legSteppers x l s
      \<and> legs (legStateMachineLeg j x) l s = legs x l s"
    by (rule conjI)
next
  fix x assume g: "gait_of x = gait_of w"
  show "legSteppers (legStateMachineLeg (l, s) x) l s
      = selectStepState w (legSteppers x l s)"
    by (simp add: legStateMachineLeg_def selectStepState_gait[OF g])
qed


lemma selectStepState_phase: "phase (selectStepState w ls) = phase ls"
  by (simp add: selectStepState_def)

text \<open>
  Claim C2, as the code has it. For every leg of the six, after the leg state machine of
  a tick: a leg that was in \<open>FORCE_STOP\<close> stays in it; a leg that was in
  \<open>FORCE_STANCE\<close> is set to \<open>STANCE\<close> (it is not kept); any other leg is in
  \<open>SWING\<close> if and only if its phase lies in the swing window, from \<open>swingStart\<close> up to
  but not including \<open>swingEnd\<close>, and in \<open>STANCE\<close> otherwise. The phase is not changed.
  The stance window is the complement of the swing window, as \<open>setGaitParams\<close> assigns
  it (\<open>swingStart = stanceEnd\<close>, \<open>stanceStart = swingEnd\<close>).
\<close>

theorem legStateMachine_step_state:
  assumes "i \<in> set legIndices"
    and "stanceEnd w = swingStart w" and "stanceStart w = swingEnd w"
  defines "before \<equiv> legSteppers w (fst i) (snd i)"
  defines "after \<equiv> legSteppers (legStateMachine w) (fst i) (snd i)"
  shows "(state before = FORCE_STOP \<longrightarrow> state after = FORCE_STOP)
    \<and> (state before = FORCE_STANCE \<longrightarrow> state after = STANCE)
    \<and> (state before \<noteq> FORCE_STANCE \<and> state before \<noteq> FORCE_STOP \<longrightarrow>
          (state after = SWING \<longleftrightarrow> swingStart w \<le> phase before \<and> phase before < swingEnd w)
          \<and> (\<not> (swingStart w \<le> phase before \<and> phase before < swingEnd w) \<longrightarrow>
                state after = STANCE))
    \<and> phase after = phase before"
proof -
  have "(fst i, snd i) \<in> set legIndices" using assms(1) by simp
  then have a: "after = selectStepState w before"
    unfolding after_def before_def by (rule legStateMachine_leg)
  show ?thesis
    unfolding a using assms(2,3)
    by (auto simp: selectStepState_def)
qed


lemma front_left_leg: "(0, 0) \<in> set legIndices"
  by (simp add: legIndices_def)

text \<open>
  The claim as stated fails for \<open>FORCE_STANCE\<close>: a starting walker whose front left leg is
  held in \<open>FORCE_STANCE\<close> at phase 2, inside the swing window from 1 to 3, has that leg in
  \<open>STANCE\<close> after the leg state machine.
\<close>

theorem legStateMachine_forced_stance_counterexample:
  "state (legSteppers forcedStanceWalker 0 0) = FORCE_STANCE
    \<and> state (legSteppers (legStateMachine forcedStanceWalker) 0 0) = STANCE"
  by (simp add: legStateMachine_leg[OF front_left_leg] selectStepState_def
      forcedStanceWalker_def restLegStepper_def)

text \<open>A leg in stance at phase 2 of a moving walker is put into swing.\<close>

theorem legStateMachine_step_state_witness:
  "(0, 0) \<in> set legIndices
    \<and> stanceEnd swingingWalker = swingStart swingingWalker
    \<and> stanceStart swingingWalker = swingEnd swingingWalker
    \<and> state (legSteppers swingingWalker 0 0) = STANCE
    \<and> swingStart swingingWalker \<le> phase (legSteppers swingingWalker 0 0)
    \<and> phase (legSteppers swingingWalker 0 0) < swingEnd swingingWalker
    \<and> state (legSteppers (legStateMachine swingingWalker) 0 0) = SWING"
proof -
  have g: "stanceEnd swingingWalker = swingStart swingingWalker"
    "stanceStart swingingWalker = swingEnd swingingWalker"
    by (simp_all add: swingingWalker_def stoppedWalker_def)
  have b: "state (legSteppers swingingWalker 0 0) = STANCE"
    "phase (legSteppers swingingWalker 0 0) = 2"
    "swingStart swingingWalker = 1" "swingEnd swingingWalker = 3"
    by (simp_all add: swingingWalker_def stoppedWalker_def restLegStepper_def)
  show ?thesis
    using legStateMachine_step_state[OF front_left_leg g] front_left_leg g
    by (simp add: b)
qed

section \<open>A stopped walker\<close>

lemma forEachLeg_pure:
  assumes "P w" and "\<And>j x. P x \<Longrightarrow> body j x = Inr (f j x) \<and> P (f j x)"
  shows "forEachLeg body is w = Inr (fold f is w)"
  using assms(1)
proof (induction "is" arbitrary: w)
  case Nil
  then show ?case by simp
next
  case (Cons j rest)
  have "body j w = Inr (f j w)" and "P (f j w)" using assms(2)[OF Cons.prems] by simp_all
  then show ?case using Cons.IH[of "f j w"] by simp
qed

lemma robotStateMachineLeg_stopped:
  assumes "walkState w = STOPPED"
  shows "robotStateMachineLeg r i w = Inr (stoppedLeg r i w)"
  using assms
  by (cases i) (simp add: robotStateMachineLeg_def stoppedLeg_def stoppedLegStep_def Let_def)

lemma stoppedLeg_walkState: "walkState (stoppedLeg r i w) = walkState w"
  by (cases i) (simp add: stoppedLeg_def)

lemma robotStateMachine_stopped:
  assumes "walkState w = STOPPED"
  shows "robotStateMachine r w = Inr (fold (stoppedLeg r) legIndices w)"
  unfolding robotStateMachine_def
  by (rule forEachLeg_pure[where P="\<lambda>x. walkState x = STOPPED"])
     (simp_all add: assms robotStateMachineLeg_stopped stoppedLeg_walkState)

lemma strideOf_body:
  assumes "body_of x = body_of w" and "stepFrequency x = stepFrequency w"
  shows "strideOf r x leg = strideOf r w leg"
  using assms by (simp add: strideOf_def body_of_def)

lemma stoppedLeg_fields:
  "body_of (stoppedLeg r i x) = body_of x"
  "stepFrequency (stoppedLeg r i x) = stepFrequency x"
  "legs (stoppedLeg r i x) = legs x"
  "gait_of (stoppedLeg r i x) = gait_of x"
  by (cases i; simp add: stoppedLeg_def)+

lemma stoppedLeg_other:
  assumes "j \<noteq> (l, s)"
  shows "legSteppers (stoppedLeg r j x) l s = legSteppers x l s"
proof -
  obtain a b where ab: "j = (a, b)" by (cases j)
  then have "(a, b) \<noteq> (l, s)" using assms by simp
  then show ?thesis
    unfolding ab stoppedLeg_def prod.case by (rule legSteppers_setLegStepper_other)
qed

lemma fold_stoppedLeg_fields:
  "legs (fold (stoppedLeg r) is w) = legs w"
  "gait_of (fold (stoppedLeg r) is w) = gait_of w"
  "walkState (fold (stoppedLeg r) is w) = walkState w"
  by (rule fold_invariant; simp add: stoppedLeg_fields stoppedLeg_walkState)+

lemma fold_stoppedLeg_leg:
  assumes "(l, s) \<in> set legIndices"
  shows "legSteppers (fold (stoppedLeg r) legIndices w) l s
    = stoppedLegStep r w (legSteppers w l s) (legs w l s)"
proof (rule fold_at_leg[where
      P="\<lambda>x. body_of x = body_of w \<and> stepFrequency x = stepFrequency w"
      and g="stoppedLegStep r w", OF distinct_legIndices assms])
  show "body_of w = body_of w \<and> stepFrequency w = stepFrequency w" by simp
next
  fix j x assume "body_of x = body_of w \<and> stepFrequency x = stepFrequency w"
  then show "body_of (stoppedLeg r j x) = body_of w
      \<and> stepFrequency (stoppedLeg r j x) = stepFrequency w"
    by (simp add: stoppedLeg_fields)
next
  fix j :: "nat \<times> nat" and x :: WalkController assume "j \<noteq> (l, s)"
  then have "legSteppers (stoppedLeg r j x) l s = legSteppers x l s"
    by (rule stoppedLeg_other)
  moreover have "legs (stoppedLeg r j x) l s = legs x l s"
    by (simp only: stoppedLeg_fields)
  ultimately show "legSteppers (stoppedLeg r j x) l s = legSteppers x l s
      \<and> legs (stoppedLeg r j x) l s = legs x l s"
    by (rule conjI)
next
  fix x assume p: "body_of x = body_of w \<and> stepFrequency x = stepFrequency w"
  have "strideOf r x (legs x l s) = strideOf r w (legs x l s)"
    by (rule strideOf_body) (use p in simp_all)
  then show "legSteppers (stoppedLeg r (l, s) x) l s
      = stoppedLegStep r w (legSteppers x l s) (legs x l s)"
    by (simp add: stoppedLeg_def stoppedLegStep_def)
qed


lemma updateTipLeg_stopped:
  assumes "walkState x = STOPPED"
  shows "updateTipLeg ext dz (l, s) x =
    (if legState (legs x l s) = WALKING
     then setLeg l s
            (applyLocalIK ext
               (set_z (currentTipPosition (reviseTip (legSteppers x l s) (legs x l s)))
                  (vz (currentTipPosition (reviseTip (legSteppers x l s) (legs x l s))) - dz l s))
               (legs x l s))
            (setLegStepper l s (reviseTip (legSteppers x l s) (legs x l s)) x)
     else x)"
  using assms by (simp add: updateTipLeg_def reviseTip_def Let_def)

lemma updateTipLeg_walkState: "walkState (updateTipLeg ext dz j x) = walkState x"
  by (cases j) (simp add: updateTipLeg_def Let_def)

lemma updateTipLeg_other:
  assumes "j \<noteq> (l, s)"
  shows "legSteppers (updateTipLeg ext dz j x) l s = legSteppers x l s"
    and "legs (updateTipLeg ext dz j x) l s = legs x l s"
proof -
  obtain a b where ab: "j = (a, b)" by (cases j)
  then have ne: "(a, b) \<noteq> (l, s)" using assms by simp
  show "legSteppers (updateTipLeg ext dz j x) l s = legSteppers x l s"
    unfolding ab
    by (simp add: updateTipLeg_def Let_def legSteppers_setLegStepper_other[OF ne]
        del: setLegStepper_fields(14))
  show "legs (updateTipLeg ext dz j x) l s = legs x l s"
    unfolding ab
    by (simp add: updateTipLeg_def Let_def legs_setLeg_other[OF ne] del: setLeg_fields(8))
qed

lemma updateTipLeg_at:
  assumes "walkState x = STOPPED"
  shows "legSteppers (updateTipLeg ext dz (l, s) x) l s = reviseTip (legSteppers x l s) (legs x l s)"
proof (cases "legState (legs x l s) = WALKING")
  case True
  then show ?thesis
    unfolding updateTipLeg_stopped[OF assms] by simp
next
  case False
  then show ?thesis
    unfolding updateTipLeg_stopped[OF assms] by (simp add: reviseTip_def)
qed

lemma updateTipPositions_stopped_leg:
  assumes "(l, s) \<in> set legIndices" and "walkState w = STOPPED"
  shows "legSteppers (updateTipPositions ext dz w) l s = reviseTip (legSteppers w l s) (legs w l s)"
  unfolding updateTipPositions_def
proof (rule fold_at_leg[where P="\<lambda>x. walkState x = STOPPED" and g=reviseTip,
      OF distinct_legIndices assms(1)])
  show "walkState w = STOPPED" by fact
next
  fix j and x :: WalkController assume "walkState x = STOPPED"
  then show "walkState (updateTipLeg ext dz j x) = STOPPED"
    by (simp add: updateTipLeg_walkState)
next
  fix j :: "nat \<times> nat" and x :: WalkController assume "j \<noteq> (l, s)"
  then show "legSteppers (updateTipLeg ext dz j x) l s = legSteppers x l s
      \<and> legs (updateTipLeg ext dz j x) l s = legs x l s"
    using updateTipLeg_other by blast
next
  fix x :: WalkController assume "walkState x = STOPPED"
  then show "legSteppers (updateTipLeg ext dz (l, s) x) l s
      = reviseTip (legSteppers x l s) (legs x l s)"
    by (rule updateTipLeg_at)
qed

lemma legStateMachine_fields:
  "legs (legStateMachine w) = legs w" "gait_of (legStateMachine w) = gait_of w"
  unfolding legStateMachine_def
  by (rule fold_invariant; (simp add: legStateMachineLeg_def split: prod.splits))+

lemma walkStateTransition_to_stopped:
  assumes "walkState (walkStateTransition sp w) = STOPPED"
  shows "legSteppers (walkStateTransition sp w) = legSteppers w"
    and "legs (walkStateTransition sp w) = legs w"
    and "stepFrequency (walkStateTransition sp w) = stepFrequency w"
proof -
  have n: "\<not> (walkState w = STOPPED \<and> sp \<noteq> 0)"
  proof
    assume "walkState w = STOPPED \<and> sp \<noteq> 0"
    then have "walkState (walkStateTransition sp w) = STARTING"
      by (simp add: walkStateTransition_walkState)
    then show False using assms by simp
  qed
  have e: "walkStateTransition sp w =
    (if walkState w = STARTING \<and> legsInCorrectPhase w = NUM_LEGS
               \<and> legsCompletedFirstStep w = NUM_LEGS then
       w\<lparr>legsInCorrectPhase := 0, legsCompletedFirstStep := 0, walkState := MOVING\<rparr>
     else if walkState w = MOVING \<and> \<not> sp \<noteq> 0 then
       w\<lparr>walkState := STOPPING\<rparr>
     else if walkState w = STOPPING \<and> legsInCorrectPhase w = NUM_LEGS then
       w\<lparr>legsInCorrectPhase := 0, walkState := STOPPED\<rparr>
     else w)"
    unfolding walkStateTransition_def by (simp only: n if_False)
  show "legSteppers (walkStateTransition sp w) = legSteppers w"
    and "legs (walkStateTransition sp w) = legs w"
    and "stepFrequency (walkStateTransition sp w) = stepFrequency w"
    unfolding e by simp_all
qed

lemma updateBodyPose_legSteppers:
  "legSteppers (updateBodyPose ext (x\<lparr>legs := y\<rparr>)) = legSteppers x"
  by (simp add: updateBodyPose_def Let_def)

lemma updateWalk_stopped_leg:
  assumes "updateWalk ext v c dz w = Inr w'" and "walkState w' = STOPPED"
    and "(l, s) \<in> set legIndices"
  shows "\<exists>r t. legSteppers w' l s
    = reviseTip (selectStepState w (stoppedLegStep r t (legSteppers w l s) (legs w l s)))
        (legs w l s)"
proof -
  obtain w1 w2 where w1: "bodyVelocities v c w = Inr w1"
    and w2: "robotStateMachine (onGroundRatio w) (walkStateTransition (normalSpeed w v) w1) = Inr w2"
    and w': "w' = updateBodyPose ext
           ((updateTipPositions ext dz (legStateMachine w2))
              \<lparr>legs := clampToLimits ext (legs (updateTipPositions ext dz (legStateMachine w2)))\<rparr>)"
    using updateWalk_stages[OF assms(1)] by blast
  let ?r = "onGroundRatio w"
  let ?t = "walkStateTransition (normalSpeed w v) w1"
  have "body_of w' = body_of ?t" using after_transition_body[OF w2 w'] .
  then have ts: "walkState ?t = STOPPED" using assms(2) by (simp add: body_of_def)
  have tl: "legSteppers ?t = legSteppers w" "legs ?t = legs w"
    using walkStateTransition_to_stopped[OF ts] bodyVelocities_frame[OF w1] by simp_all
  have tg: "gait_of ?t = gait_of w"
    using bodyVelocities_frame(6)[OF w1] by (simp add: walkStateTransition_gait)
  have w2e: "w2 = fold (stoppedLeg ?r) legIndices ?t"
    using w2 robotStateMachine_stopped[OF ts, of ?r] by simp
  have l2: "legSteppers w2 l s = stoppedLegStep ?r ?t (legSteppers w l s) (legs w l s)"
    unfolding w2e using fold_stoppedLeg_leg[OF assms(3), of ?r ?t] by (simp add: tl)
  have f2: "legs w2 = legs w" "gait_of w2 = gait_of w" "walkState w2 = STOPPED"
    unfolding w2e by (simp_all add: fold_stoppedLeg_fields tl tg ts)
  let ?w3 = "legStateMachine w2"
  have "legSteppers ?w3 l s = selectStepState w2 (legSteppers w2 l s)"
    using assms(3) by (rule legStateMachine_leg)
  also have "\<dots> = selectStepState w (legSteppers w2 l s)"
    using f2(2) by (rule selectStepState_gait)
  finally have l3: "legSteppers ?w3 l s
      = selectStepState w (stoppedLegStep ?r ?t (legSteppers w l s) (legs w l s))"
    unfolding l2 .
  have "body_of ?w3 = body_of w2" by (rule legStateMachine_body)
  then have s3: "walkState ?w3 = STOPPED" using f2(3) by (simp add: body_of_def)
  have g3: "legs ?w3 = legs w" by (simp add: legStateMachine_fields f2)
  have "legSteppers (updateTipPositions ext dz ?w3) l s
      = reviseTip (legSteppers ?w3 l s) (legs ?w3 l s)"
    using updateTipPositions_stopped_leg[OF assms(3) s3] .
  then have "legSteppers w' l s
      = reviseTip (selectStepState w (stoppedLegStep ?r ?t (legSteppers w l s) (legs w l s)))
          (legs w l s)"
    unfolding w' updateBodyPose_legSteppers by (simp add: l3 g3)
  then show ?thesis by blast
qed

lemma selectStepState_stopped:
  "selectStepState w (stoppedLegStep r t ls leg)
    = (stoppedLegStep r t ls leg)
        \<lparr>state := (if swingStart w \<le> 0 \<and> 0 < swingEnd w then SWING else STANCE)\<rparr>"
  by (simp add: selectStepState_def stoppedLegStep_def)

lemma updateWalk_walk_state_after:
  assumes "updateWalk ext v c dz w = Inr w'"
  shows "walkState w' = walkState (walkStateTransition (normalSpeed w v) w)"
proof -
  obtain w1 w2 where w1: "bodyVelocities v c w = Inr w1"
    and w2: "robotStateMachine (onGroundRatio w) (walkStateTransition (normalSpeed w v) w1) = Inr w2"
    and w': "w' = updateBodyPose ext
           ((updateTipPositions ext dz (legStateMachine w2))
              \<lparr>legs := clampToLimits ext (legs (updateTipPositions ext dz (legStateMachine w2)))\<rparr>)"
    using updateWalk_stages[OF assms(1)] by blast
  have "body_of w' = body_of (walkStateTransition (normalSpeed w v) w1)"
    using after_transition_body[OF w2 w'] .
  then have "walkState w' = walkState (walkStateTransition (normalSpeed w v) w1)"
    by (simp add: body_of_def)
  also have "\<dots> = walkState (walkStateTransition (normalSpeed w v) w)"
    unfolding walkStateTransition_walkState
    by (simp only: bodyVelocities_frame[OF w1])
  finally show ?thesis .
qed

lemma normalSpeed_at_rest:
  assumes "stanceRadius w = stanceRadius stoppedWalker" and "params w = params stoppedWalker"
  shows "normalSpeed w (Vector2d 0 0) = 0"
  using assms
  by (simp add: normalSpeed_def localVelocity_def stoppedWalker_def scale2_def div2_def
      norm2_def)

lemma second_left_leg: "(1, 0) \<in> set legIndices"
  by (simp add: legIndices_def)

text \<open>
  Claim C9, as the code has it. In a tick of \<open>updateWalk\<close> whose walk state is stopped
  during the per-leg update (the walk state after the tick, which nothing writes after the
  transition block), every one of the six leg steppers ends the tick with phase 0 and both
  flags false. Its step state is \<open>STANCE\<close> unless phase 0 lies inside the swing window,
  \<open>swingStart \<le> 0 < swingEnd\<close>: there the leg state machine, which runs after the
  stopped branch in the same tick, sets it to \<open>SWING\<close>. \<open>updatePosition\<close> is not called,
  whatever the gait: the current tip position of a walking leg is only re-based on the
  stance tip position of the pose, that of another leg is untouched, and the tip velocity,
  the origins, the control nodes and the time deltas, which only \<open>updatePosition\<close> writes,
  are those of before the tick.
\<close>

theorem updateWalk_stopped_legs:
  assumes "updateWalk ext v c dz w = Inr w'" and "walkState w' = STOPPED"
    and "i \<in> set legIndices"
  defines "before \<equiv> legSteppers w (fst i) (snd i)"
  defines "after \<equiv> legSteppers w' (fst i) (snd i)"
  defines "leg \<equiv> legs w (fst i) (snd i)"
  shows "phase after = 0
    \<and> state after = (if swingStart w \<le> 0 \<and> 0 < swingEnd w then SWING else STANCE)
    \<and> \<not> inCorrectPhase after \<and> \<not> completedFirstStep after
    \<and> currentTipPosition after
        = (if legState leg = WALKING
           then stanceTipPosition leg - (defaultTipPosition before - currentTipPosition before)
           else currentTipPosition before)
    \<and> tipVelocity after = tipVelocity before
    \<and> swingOriginTipPosition after = swingOriginTipPosition before
    \<and> stanceOriginTipPosition after = stanceOriginTipPosition before
    \<and> swing1ControlNodes after = swing1ControlNodes before
    \<and> swing2ControlNodes after = swing2ControlNodes before
    \<and> stanceControlNodes after = stanceControlNodes before
    \<and> swingDeltaT after = swingDeltaT before
    \<and> stanceDeltaT after = stanceDeltaT before"
proof -
  have "(fst i, snd i) \<in> set legIndices" using assms(3) by simp
  from updateWalk_stopped_leg[OF assms(1,2) this]
  obtain r t where a: "after
      = reviseTip (selectStepState w (stoppedLegStep r t before leg)) leg"
    unfolding after_def before_def leg_def by blast
  show ?thesis
    unfolding a selectStepState_stopped by (simp add: reviseTip_def stoppedLegStep_def)
qed

text \<open>
  A walker that is stopping with all six legs in the correct phase and no command becomes
  stopped in this tick. Its second left leg, held in \<open>FORCE_STOP\<close> at the end of its swing
  (phase 3) with both flags set, a tip 1 cm ahead of its default position and a tip
  velocity left from the last step, ends the tick at phase 0 in \<open>STANCE\<close> with both flags
  false, its tip and tip velocity where they were.
\<close>

theorem updateWalk_stopped_legs_witness:
  "\<exists>w'. updateWalk idleCollaborators (Vector2d 0 0) 0 (\<lambda>l s. 0) haltingWalker = Inr w'
     \<and> walkState w' = STOPPED
     \<and> (1, 0) \<in> set legIndices
     \<and> phase (legSteppers haltingWalker 1 0) = 3
     \<and> state (legSteppers haltingWalker 1 0) = FORCE_STOP
     \<and> inCorrectPhase (legSteppers haltingWalker 1 0)
     \<and> completedFirstStep (legSteppers haltingWalker 1 0)
     \<and> phase (legSteppers w' 1 0) = 0 \<and> state (legSteppers w' 1 0) = STANCE
     \<and> \<not> inCorrectPhase (legSteppers w' 1 0) \<and> \<not> completedFirstStep (legSteppers w' 1 0)
     \<and> currentTipPosition (legSteppers w' 1 0) = Vector3d (1/100) 0 0
     \<and> tipVelocity (legSteppers w' 1 0) = Vector3d (1/10) 0 0"
proof -
  have r: "normalSpeed haltingWalker (Vector2d 0 0) = 0"
    by (rule normalSpeed_at_rest) (simp_all add: haltingWalker_def)
  then have "normalSpeed haltingWalker (Vector2d 0 0) < 1.01" by simp
  moreover have "phaseLength haltingWalker \<noteq> 0"
    by (simp add: haltingWalker_def stoppedWalker_def)
  ultimately obtain w'
    where w': "updateWalk idleCollaborators (Vector2d 0 0) 0 (\<lambda>l s. 0) haltingWalker = Inr w'"
    using updateWalk_returns by blast
  have s: "walkState haltingWalker = STOPPING" "legsInCorrectPhase haltingWalker = NUM_LEGS"
    by (simp_all add: haltingWalker_def NUM_LEGS_def)
  have st: "walkState w' = STOPPED"
    using updateWalk_walk_state_after[OF w'] s
    by (simp add: r walkStateTransition_walkState)
  have g: "swingStart haltingWalker = 1" "swingEnd haltingWalker = 3"
    by (simp_all add: haltingWalker_def stoppedWalker_def)
  have f: "legSteppers haltingWalker = (\<lambda>l s. haltedLegStepper)"
    "legs haltingWalker = (\<lambda>l s. restLeg)"
    by (simp_all add: haltingWalker_def stoppedWalker_def)
  show ?thesis
    using updateWalk_stopped_legs[OF w' st second_left_leg] w' st second_left_leg
    by (simp add: f g haltedLegStepper_def restLegStepper_def restLeg_def
        minus_Vector3d_def)
qed

text \<open>
  The claim as stated fails for a gait whose swing window starts at phase 0, which
  \<open>setGaitParams\<close> assigns for a stance phase of 1 (here with a swing phase of 1 and a
  phase length of 4: \<open>stanceEnd = swingStart = 0\<close>, \<open>swingEnd = stanceStart = 2\<close>). A
  stopped walker with no command stays stopped, and its front left leg, in \<open>STANCE\<close>
  before the tick, ends the tick in \<open>SWING\<close>.
\<close>

theorem updateWalk_stopped_leg_in_swing_counterexample:
  "\<exists>w'. updateWalk idleCollaborators (Vector2d 0 0) 0 (\<lambda>l s. 0) earlySwingWalker = Inr w'
     \<and> walkState earlySwingWalker = STOPPED
     \<and> state (legSteppers earlySwingWalker 0 0) = STANCE
     \<and> walkState w' = STOPPED
     \<and> phase (legSteppers w' 0 0) = 0
     \<and> state (legSteppers w' 0 0) = SWING"
proof -
  have r: "normalSpeed earlySwingWalker (Vector2d 0 0) = 0"
    by (rule normalSpeed_at_rest) (simp_all add: earlySwingWalker_def)
  then have "normalSpeed earlySwingWalker (Vector2d 0 0) < 1.01" by simp
  moreover have "phaseLength earlySwingWalker \<noteq> 0"
    by (simp add: earlySwingWalker_def stoppedWalker_def)
  ultimately obtain w'
    where w': "updateWalk idleCollaborators (Vector2d 0 0) 0 (\<lambda>l s. 0) earlySwingWalker = Inr w'"
    using updateWalk_returns by blast
  have s: "walkState earlySwingWalker = STOPPED"
    by (simp add: earlySwingWalker_def stoppedWalker_def)
  have b: "state (legSteppers earlySwingWalker 0 0) = STANCE"
    by (simp add: earlySwingWalker_def stoppedWalker_def restLegStepper_def)
  have st: "walkState w' = STOPPED"
    using updateWalk_walk_state_after[OF w'] s
    by (simp add: r walkStateTransition_walkState)
  have g: "swingStart earlySwingWalker = 0" "swingEnd earlySwingWalker = 2"
    by (simp_all add: earlySwingWalker_def)
  obtain q t where a: "legSteppers w' 0 0
      = reviseTip (selectStepState earlySwingWalker
          (stoppedLegStep q t (legSteppers earlySwingWalker 0 0) (legs earlySwingWalker 0 0)))
          (legs earlySwingWalker 0 0)"
    using updateWalk_stopped_leg[OF w' st front_left_leg] by blast
  have "phase (legSteppers w' 0 0) = 0 \<and> state (legSteppers w' 0 0) = SWING"
    unfolding a selectStepState_stopped by (simp add: g reviseTip_def stoppedLegStep_def)
  then show ?thesis using w' s b st by blast
qed
section \<open>The apex of the swing\<close>

text \<open>
  What \<open>generateSwingControlNodes\<close> computes for node 4 of the primary swing curve:
  horizontally the default tip position, vertically the height of the swing origin (not of
  the default tip position) plus the swing height.
\<close>

lemma generateSwingControlNodes_apex:
  "horizontal (swing1ControlNodes (generateSwingControlNodes w sv ls) 4)
      = horizontal (defaultTipPosition ls)
   \<and> vz (swing1ControlNodes (generateSwingControlNodes w sv ls) 4)
      = vz (swingOriginTipPosition ls) + stepClearance w * maximumBodyHeight w"
  by (simp add: generateSwingControlNodes_def Let_def set_z_def horizontal_def)


text \<open>
  Claim C4 says the apex is at the default height plus the swing height, and so does the
  comment of the source on the line that sets it. The code differs as soon as a leg enters
  swing away from the default height. A leg of a moving walker with a step depth of 1/10
  starts a stance at rest at the default position (height 0) and is updated through the two
  ticks of that stance and the first tick of the swing: the stance leaves the tip at height
  1/10, which becomes the swing origin, and the apex node is set at height 1/5, while the
  default height plus the swing height is 1/10.
\<close>

theorem swing_apex_after_a_stance_with_depth:
  "vz (swingOriginTipPosition swingEntryStepper) = 1/10
   \<and> vz (defaultTipPosition swingEntryStepper) = 0
   \<and> stepClearance deepWalker * maximumBodyHeight deepWalker = 1/10
   \<and> vz (swing1ControlNodes swingEntryStepper 4) = 1/5"
  by code_simp

section \<open>The impedance pose\<close>

lemma fold_delta_z:
  "fold (\<lambda>leg a. a + delta_z leg) xs a0 = a0 + sum_list (map delta_z xs)"
  by (induction xs arbitrary: a0) simp_all

lemma updateImpedancePose_result:
  assumes "max_translation (parameters pc) ''z'' = Some m"
  shows "updateImpedancePose pc =
    Inr (pc\<lparr>impedance_pose := (impedance_pose pc)\<lparr>position :=
           set_z (position (impedance_pose pc))
             (clamped \<bar>sum_list (map delta_z (leg_container (model pc)))
                        / real_of_int (leg_count (model pc))\<bar> (- m) m)\<rparr>\<rparr>)"
  using assms by (simp add: updateImpedancePose_def at_key_def fold_delta_z Let_def)

text \<open>
  Claim C8, as the code has it. When \<open>updateImpedancePose\<close> returns (the key \<open>z\<close> is in
  the map of maximum translations) and the leg count is not zero, the vertical component of
  the impedance pose translation is the absolute value of the average of \<open>delta_z\<close>, the
  sum over every leg of the container divided by the leg count of the model (not by a
  number of loaded legs), clamped between minus and plus the maximum translation; the other
  two components and the rotation of the impedance pose, and everything else in the pose
  controller, are unchanged.
\<close>

theorem updateImpedancePose_sets_z:
  assumes "updateImpedancePose pc = Inr pc'"
    and "max_translation (parameters pc) ''z'' = Some m"
    and "leg_count (model pc) \<noteq> 0"
  shows "vz (position (impedance_pose pc'))
        = clamped \<bar>sum_list (map delta_z (leg_container (model pc)))
                     / real_of_int (leg_count (model pc))\<bar> (- m) m
    \<and> vx (position (impedance_pose pc')) = vx (position (impedance_pose pc))
    \<and> vy (position (impedance_pose pc')) = vy (position (impedance_pose pc))
    \<and> rotation (impedance_pose pc') = rotation (impedance_pose pc)
    \<and> pc' = pc\<lparr>impedance_pose := impedance_pose pc'\<rparr>"
proof -
  let ?z = "clamped \<bar>sum_list (map delta_z (leg_container (model pc)))
                     / real_of_int (leg_count (model pc))\<bar> (- m) m"
  have e: "pc' = pc\<lparr>impedance_pose := (impedance_pose pc)\<lparr>position :=
           set_z (position (impedance_pose pc)) ?z\<rparr>\<rparr>"
    using assms(1) unfolding updateImpedancePose_result[OF assms(2)] by simp
  have ip: "impedance_pose pc' = (impedance_pose pc)\<lparr>position :=
           set_z (position (impedance_pose pc)) ?z\<rparr>"
    by (subst e) simp
  have "pc' = pc\<lparr>impedance_pose := impedance_pose pc'\<rparr>"
    unfolding ip by (rule e)
  then show ?thesis
    by (simp add: ip set_z_def)
qed

text \<open>Two legs that each sag by 1/100, with a maximum translation of 1/20.\<close>

theorem updateImpedancePose_sets_z_witness:
  "updateImpedancePose saggingController
      = Inr (saggingController\<lparr>impedance_pose :=
               \<lparr>position = Vector3d 0 0 (1/100), rotation = Quat 1 0 0 0\<rparr>\<rparr>)
   \<and> max_translation (parameters saggingController) ''z'' = Some (1/20)
   \<and> leg_count (model saggingController) \<noteq> 0
   \<and> vz (position (impedance_pose (saggingController\<lparr>impedance_pose :=
               \<lparr>position = Vector3d 0 0 (1/100), rotation = Quat 1 0 0 0\<rparr>\<rparr>)))
       = clamped \<bar>(- (1/100) + - (1/100)) / 2\<bar> (- (1/20)) (1/20)"
proof -
  have m: "max_translation (parameters saggingController) ''z'' = Some (1/20)"
    by (simp add: saggingController_def)
  have n: "leg_count (model saggingController) \<noteq> 0"
    by (simp add: saggingController_def)
  have r: "updateImpedancePose saggingController
      = Inr (saggingController\<lparr>impedance_pose :=
               \<lparr>position = Vector3d 0 0 (1/100), rotation = Quat 1 0 0 0\<rparr>\<rparr>)"
    unfolding updateImpedancePose_result[OF m]
    by (simp add: saggingController_def saggingLeg_def Pose_identity_def set_z_def clamped_def)
  have s: "sum_list (map delta_z (leg_container (model saggingController)))
            / real_of_int (leg_count (model saggingController)) = (- (1/100) + - (1/100)) / 2"
    by (simp add: saggingController_def saggingLeg_def)
  show ?thesis
    using updateImpedancePose_sets_z[OF r m n] r m n by (simp add: s)
qed

text \<open>
  The claim as stated (the average itself, clamped) fails when the average is negative: for
  the two sagging legs the average is -1/100, which the clamp would leave alone, and the
  code stores +1/100.
\<close>

theorem updateImpedancePose_negative_average_counterexample:
  "updateImpedancePose saggingController
      = Inr (saggingController\<lparr>impedance_pose :=
               \<lparr>position = Vector3d 0 0 (1/100), rotation = Quat 1 0 0 0\<rparr>\<rparr>)
   \<and> sum_list (map delta_z (leg_container (model saggingController)))
         / real_of_int (leg_count (model saggingController)) = - (1/100)
   \<and> clamped (- (1/100)) (- (1/20)) (1/20) = - (1/100)"
proof -
  have m: "max_translation (parameters saggingController) ''z'' = Some (1/20)"
    by (simp add: saggingController_def)
  have "updateImpedancePose saggingController
      = Inr (saggingController\<lparr>impedance_pose :=
               \<lparr>position = Vector3d 0 0 (1/100), rotation = Quat 1 0 0 0\<rparr>\<rparr>)"
    unfolding updateImpedancePose_result[OF m]
    by (simp add: saggingController_def saggingLeg_def Pose_identity_def set_z_def clamped_def)
  moreover have "sum_list (map delta_z (leg_container (model saggingController)))
         / real_of_int (leg_count (model saggingController)) = - (1/100)"
    by (simp add: saggingController_def saggingLeg_def)
  moreover have "clamped (- (1/100)) (- (1/20)) (1/20) = - (1/100)"
    by (simp add: clamped_def)
  ultimately show ?thesis by blast
qed

section \<open>The window of an auto poser\<close>

lemma poseWindow_closed_form:
  "poseWindow poser ap ph =
    (let L = pose_phase_length poser;
         s = (if start_phase ap * normaliser poser = 0 then L
              else start_phase ap * normaliser poser);
         e = (if end_phase ap * normaliser poser = 0 then L
              else end_phase ap * normaliser poser)
     in (s, if s > e then e + L else e, if s > e \<and> ph < s then ph + L else ph))"
  by (simp add: poseWindow_def Let_def)

text \<open>
  Claim C10. For every phase given to \<open>AutoPoser::updatePose\<close>: a start phase or an end
  phase that is 0 after the multiplication by the normaliser is replaced by the pose phase
  length; when the start phase then exceeds the end phase, the phase length is added to the
  end phase, and to the phase as well when the phase is below the start phase; and whenever
  the phase so unwrapped lies outside the window from the start phase up to but not
  including the end phase, or posing is not allowed once the flags of this call are
  updated, the pose returned is the identity. The auto poser left behind is the one the
  flag update gives.
\<close>

theorem updatePose_window:
  fixes poser :: PoseController and ap :: AutoPoser and ph :: int
  defines "L \<equiv> pose_phase_length poser"
  defines "s \<equiv> (if start_phase ap * normaliser poser = 0 then L
              else start_phase ap * normaliser poser)"
  defines "e \<equiv> (if end_phase ap * normaliser poser = 0 then L
              else end_phase ap * normaliser poser)"
  defines "e' \<equiv> (if s > e then e + L else e)"
  defines "p' \<equiv> (if s > e \<and> ph < s then ph + L else ph)"
  shows "poseWindow poser ap ph = (s, e', p')
    \<and> (\<not> (s \<le> p' \<and> p' < e') \<or> \<not> allow_posing (snd (updatePose quatOf poser ap ph))
          \<longrightarrow> fst (updatePose quatOf poser ap ph) = Pose_identity)
    \<and> snd (updatePose quatOf poser ap ph) = poseChecks poser s e' p' ap"
proof -
  have w: "poseWindow poser ap ph = (s, e', p')"
    unfolding poseWindow_closed_form L_def s_def e_def e'_def p'_def by (simp add: Let_def)
  show ?thesis
    by (simp add: updatePose_def w Let_def)
qed


lemma wrapPoser_window:
  "poseWindow saggingController wrapPoser 2 = (4, 6, 6)"
  "poseWindow saggingController wrapPoser 0 = (4, 6, 4)"
  by (simp_all add: poseWindow_closed_form saggingController_def wrapPoser_def Let_def)

lemma wrapPoser_checks:
  "poseChecks saggingController 4 6 4 wrapPoser = wrapPoser\<lparr>start_check := True\<rparr>"
  by (simp add: poseChecks_def saggingController_def wrapPoser_def Let_def)

lemma wrapPoser_inside:
  "position (fst (updatePose unitQuat saggingController wrapPoser 0)) = Vector3d 0 0 (1/50)"
proof -
  have "updatePose unitQuat saggingController wrapPoser 0
      = (posingCycle unitQuat (wrapPoser\<lparr>start_check := True\<rparr>) 4 6 4,
         wrapPoser\<lparr>start_check := True\<rparr>)"
    by (simp add: updatePose_def wrapPoser_window wrapPoser_checks Let_def)
       (simp add: wrapPoser_def)
  moreover have "position (posingCycle unitQuat (wrapPoser\<lparr>start_check := True\<rparr>) 4 6 4)
      = Vector3d 0 0 (1/50)"
    by (simp add: posingCycle_def Let_def wrapPoser_def quarticBezier_def toInt_def
      scale3_def plus_Vector3d_def signed_divide_int_def)
  ultimately show ?thesis by simp
qed

text \<open>
  An auto poser from phase 0 to phase 2 of a cycle of 4: the window is unwrapped to 4 up to
  6; the phase 2 becomes 6, outside the window, and the pose is the identity, while at phase
  0 (lemma \<open>wrapPoser_inside\<close>) the pose is raised by the amplitude.
\<close>

theorem updatePose_window_witness:
  "poseWindow saggingController wrapPoser 2 = (4, 6, 6)
   \<and> \<not> (4 \<le> (6::int) \<and> (6::int) < 6)
   \<and> fst (updatePose unitQuat saggingController wrapPoser 2) = Pose_identity"
proof -
  have "fst (updatePose unitQuat saggingController wrapPoser 2) = Pose_identity"
    using updatePose_window[of saggingController wrapPoser 2 unitQuat]
    by (simp add: saggingController_def wrapPoser_def)
  then show ?thesis by (simp add: wrapPoser_window)
qed

section \<open>The value returned by the transition sequence\<close>




section \<open>The proximity alert of the transition sequence\<close>

text \<open>
  Claim C7. The safety factor that \<open>executeSequence\<close> sets up is \<open>SAFETY_FACTOR / (k + 1)\<close>
  at transition step \<open>k\<close> of a first execution of the sequence, and 0 in a later execution.
  In the stepping loop of a horizontal transition, a leg that steps in a first execution
  and for which the inverse kinematics reports a proximity below the safety factor is stopped
  in place: its target tip position is set to its current tip position, its step is reset
  and has the progress \<open>PROGRESS_COMPLETE\<close>, the leg is marked as having completed the step
  and the proximity alert of the controller is raised. The loop goes on with the remaining
  legs, and the alert is still raised at its end. After a call of \<open>executeSequence\<close> in
  whose horizontal transition some leg was stopped so, or that found the alert raised by an
  earlier call of the transition, either the alert is still raised (the transition goes on
  with the other leg group) or the transition has ended, at the next transition step, and is
  not marked as complete.
\<close>

theorem executeSequence_proximity_alert:
  fixes ext :: SequenceCollaborators and K :: SequenceConstants and sequence :: SequenceSelection
    and pc pc0 :: PoseController and loc :: SequenceSetup and d :: bool
  defines "body \<equiv> horizontalLeg ext K sequence loc d"
  defines "after \<equiv> snd (executeSequence ext K sequence pc0)"
  shows "safety_factor (sequenceSetup K sequence pc)
      = (if first_sequence_execution pc
         then SAFETY_FACTOR K / real_of_int (transition_step pc + 1) else 0)
    \<and> (exceedsWorkspace ext K sequence loc d pc leg \<longrightarrow>
         body (p, pc) leg
           = ((PROGRESS_COMPLETE, alerted pc),
              stoppedInPlace (snd (snd (horizontalStep ext K sequence loc d pc leg))))
         \<and> forLegs body (p, pc) (leg # rest)
           = (fst (forLegs body (PROGRESS_COMPLETE, alerted pc) rest),
              stoppedInPlace (snd (snd (horizontalStep ext K sequence loc d pc leg)))
                # snd (forLegs body (PROGRESS_COMPLETE, alerted pc) rest))
         \<and> proximity_alert (snd (fst (forLegs body (p, pc) (leg # rest)))))
    \<and> (alertedLegs ext K sequence pc0 \<or> alertPending K sequence pc0 \<longrightarrow>
         proximity_alert after
         \<or> (\<not> horizontal_transition_complete after
             \<and> transition_step after
                 = next_transition_step (sequenceSetup K sequence (resetSequence sequence pc0))))"
proof -
  have a: "safety_factor (sequenceSetup K sequence pc)
      = (if first_sequence_execution pc
         then SAFETY_FACTOR K / real_of_int (transition_step pc + 1) else 0)"
    by (simp add: sequenceSetup_def Let_def)
  have b: "body (p, pc) leg
           = ((PROGRESS_COMPLETE, alerted pc),
              stoppedInPlace (snd (snd (horizontalStep ext K sequence loc d pc leg))))
         \<and> forLegs body (p, pc) (leg # rest)
           = (fst (forLegs body (PROGRESS_COMPLETE, alerted pc) rest),
              stoppedInPlace (snd (snd (horizontalStep ext K sequence loc d pc leg)))
                # snd (forLegs body (PROGRESS_COMPLETE, alerted pc) rest))
         \<and> proximity_alert (snd (fst (forLegs body (p, pc) (leg # rest))))"
    if e: "exceedsWorkspace ext K sequence loc d pc leg"
  proof -
    have s: "body (p, pc) leg
           = ((PROGRESS_COMPLETE, alerted pc),
              stoppedInPlace (snd (snd (horizontalStep ext K sequence loc d pc leg))))"
      unfolding body_def using e by (rule horizontalLeg_alerted)
    have l: "forLegs body (p, pc) (leg # rest)
           = (fst (forLegs body (PROGRESS_COMPLETE, alerted pc) rest),
              stoppedInPlace (snd (snd (horizontalStep ext K sequence loc d pc leg)))
                # snd (forLegs body (PROGRESS_COMPLETE, alerted pc) rest))"
      by (simp add: s split_beta)
    have "proximity_alert (snd (fst (forLegs body (p, pc) (leg # rest))))"
      unfolding body_def by (subst horizontalLoop_controller) (simp add: e)
    then show ?thesis using s l by simp
  qed
  have c: "proximity_alert after
         \<or> (\<not> horizontal_transition_complete after
             \<and> transition_step after
                 = next_transition_step (sequenceSetup K sequence (resetSequence sequence pc0)))"
    if g: "alertedLegs ext K sequence pc0 \<or> alertPending K sequence pc0"
  proof -
    let ?pc = "resetSequence sequence pc0"
    let ?loc = "sequenceSetup K sequence ?pc"
    let ?run = "\<lparr>progress = 0, normalised_progress = 0, sequence_complete = False,
         controller = ?pc\<rparr>"
    let ?R = "controller (horizontalTransition ext K sequence ?loc ?run)"
    have h: "execute_horizontal_transition ?loc"
      using g by (auto simp add: alertedLegs_def alertPending_def Let_def)
    have x: "proximity_alert (controller ?run)
      \<or> (\<exists>leg\<in>set (leg_container (model (setHorizontalTargets ?loc (controller ?run)))).
       exceedsWorkspace ext K sequence ?loc
         (\<not> legs_bearing_load (model (setHorizontalTargets ?loc (controller ?run))))
         (setHorizontalTargets ?loc (controller ?run)) leg)"
      using g by (auto simp add: alertedLegs_def alertPending_def Let_def resetSequence_alert)
    have r: "proximity_alert ?R
      \<or> (\<not> horizontal_transition_complete ?R \<and> transition_step ?R = next_transition_step ?loc)"
      using x by (rule horizontalTransition_alert)
    have e: "after = snd (finishSequence K (total_progress0 ?loc) (horizontalTransition ext K sequence ?loc ?run))"
      unfolding after_def executeSequence_def sequenceRun_horizontal[OF h] ..
    show ?thesis
      unfolding e using r finishSequence_frame by metis
  qed
  show ?thesis using a b c by blast
qed

text \<open>
  A first execution at step 0 with a safety factor of 3/20 and inverse kinematics that
  report a proximity of 1/10. The leg of group 0 is stopped at the tip position of this
  iteration with progress 100 and the alert is raised in the loop; after the call the alert
  is still raised and the other group steps, still at step 0. The call after that stops the
  leg of group 1 and ends the transition at step 1 without marking it complete.
\<close>

theorem executeSequence_proximity_alert_witness:
  "first_sequence_execution unpackingController
   \<and> transition_step unpackingController = 0
   \<and> safety_factor unpackingSetup = 3/20
   \<and> fst (snd (horizontalStep tightIK sequenceConstants START_UP unpackingSetup False
          unpackingController unpackingLeg)) = 1/10
   \<and> exceedsWorkspace tightIK sequenceConstants START_UP unpackingSetup False
        unpackingController unpackingLeg
   \<and> target_tip_position (leg_poser (snd (horizontalLeg tightIK sequenceConstants START_UP
          unpackingSetup False (0, unpackingController) unpackingLeg)))
       = current_tip_position (leg_poser (snd (snd (horizontalStep tightIK sequenceConstants
          START_UP unpackingSetup False unpackingController unpackingLeg))))
   \<and> current_tip_position (leg_poser (snd (horizontalLeg tightIK sequenceConstants START_UP
          unpackingSetup False (0, unpackingController) unpackingLeg)))
       = current_tip_position (leg_poser (snd (snd (horizontalStep tightIK sequenceConstants
          START_UP unpackingSetup False unpackingController unpackingLeg))))
   \<and> fst (fst (horizontalLeg tightIK sequenceConstants START_UP unpackingSetup False
          (0, unpackingController) unpackingLeg)) = 100
   \<and> proximity_alert (snd (fst (horizontalLeg tightIK sequenceConstants START_UP unpackingSetup
          False (0, unpackingController) unpackingLeg)))
   \<and> alertedLegs tightIK sequenceConstants START_UP unpackingController
   \<and> proximity_alert unpackingNext
   \<and> current_group unpackingNext = 1
   \<and> transition_step unpackingNext = 0
   \<and> alertPending sequenceConstants START_UP unpackingNext
   \<and> \<not> horizontal_transition_complete
         (snd (executeSequence tightIK sequenceConstants START_UP unpackingNext))
   \<and> transition_step (snd (executeSequence tightIK sequenceConstants START_UP unpackingNext))
       = 1"
proof -
  have f: "first_sequence_execution unpackingController"
    "transition_step unpackingController = 0"
    by (simp_all add: unpackingController_def)
  have s: "safety_factor unpackingSetup = 3/20"
    unfolding unpackingSetup_def
    using executeSequence_proximity_alert[where K=sequenceConstants and sequence=START_UP
        and pc=unpackingController]
    by (simp add: f sequenceConstants_def)
  have i: "fst (snd (horizontalStep tightIK sequenceConstants START_UP unpackingSetup False
          unpackingController unpackingLeg)) = 1/10"
    by (simp add: horizontalStep_def Let_def split_beta tightIK_def)
  have e: "exceedsWorkspace tightIK sequenceConstants START_UP unpackingSetup False
        unpackingController unpackingLeg"
    unfolding exceedsWorkspace_def i s
    by (simp add: f unpackingLeg_def unpackingController_def standingController_def
        standingLeg_def)
  have g: "alertedLegs tightIK sequenceConstants START_UP unpackingController"
    by code_simp
  have n: "proximity_alert unpackingNext" "current_group unpackingNext = 1"
    "transition_step unpackingNext = 0"
    by code_simp+
  have q: "alertPending sequenceConstants START_UP unpackingNext"
    by code_simp
  have m: "\<not> proximity_alert
         (snd (executeSequence tightIK sequenceConstants START_UP unpackingNext))"
    by code_simp
  have x: "next_transition_step (sequenceSetup sequenceConstants START_UP
         (resetSequence START_UP unpackingNext)) = 1"
    by code_simp
  note t = executeSequence_proximity_alert[where ext=tightIK and K=sequenceConstants
        and sequence=START_UP and pc=unpackingController and loc=unpackingSetup and d=False
        and leg=unpackingLeg and p=0 and rest="[waitingLeg]" and ?pc0.0=unpackingNext]
  show ?thesis
    using t e g n q m x f s i
    by (simp add: stoppedInPlace_def alerted_def PROGRESS_COMPLETE_def
        resetStepToPosition_def addTransitionPosition_def Let_def)
qed


end
